theory Spec2Isabelle
  imports Complex_Main "HOL-Library.Word" "HOL-Library.Multiset"
begin

section \<open>The Monte Carlo engine of Fintra (\<open>mc_engine\<close>)\<close>

text \<open>
  A shallow embedding of \<^verbatim>\<open>src/mc_engine/src/monte_carlo.cpp\<close> and
  \<^verbatim>\<open>src/mc_engine/include/monte_carlo.h\<close>.

  Modelling decisions, valid for the whole development:
  \<^item> A C++ \<^verbatim>\<open>double\<close> is a \<^typ>\<open>real\<close>: arithmetic is exact, there is no
    rounding, no infinity and no NaN. The theorems about generated paths and about
    the report are statements about this idealisation of the arithmetic; the
    control flow, the list structure and the integer arithmetic are those of the
    source. The one function that a claim is about for every input, rounding and
    division by zero included, \<^verbatim>\<open>calculateSharpeRatio\<close>, is modelled over an
    arbitrary arithmetic instead, of which the exact one is an instance.
  \<^item> A \<^verbatim>\<open>uint32_t\<close> is a \<^typ>\<open>32 word\<close>. An \<^verbatim>\<open>int\<close> that holds a size or a counter
    is an \<^typ>\<open>int\<close>; vectors are assumed to hold fewer than \<open>2^31\<close> elements, so
    that \<^verbatim>\<open>static_cast<int>(v.size())\<close> does not wrap.
  \<^item> A \<^verbatim>\<open>std::vector\<close> is a list. The reservation of the result vector, whose
    size the caller chooses, can fail; the platform that decides is a parameter of
    the functions with the suffix \<open>_mem\<close>. The functions without the suffix run on
    a platform that grants every reservation; the theorems about the paths and the
    report are stated for them.
  \<^item> The pseudo-random generator \<^verbatim>\<open>rng_\<close> is a value of an arbitrary type \<open>'g\<close>.
    \<^verbatim>\<open>std::uniform_int_distribution\<close> is a parameter \<open>uid\<close> of the model:
    \<open>uid a b g\<close> is the number drawn from the closed range \<open>[a, b]\<close> together with
    the generator's next state.
  \<^item> A scalar member of the default-initialised report holds an indeterminate
    value until it is assigned: such a field has an option type, and \<open>None\<close> is the
    indeterminate value.
\<close>

type_synonym double = real

subsection \<open>Data model (\<^verbatim>\<open>monte_carlo.h\<close>)\<close>

record SimulationConfig =
  num_simulations :: "32 word"
  seed :: "32 word"
  initial_capital :: double
  risk_per_trade :: double
  atr_multiplier :: double
  tax_rate :: double
  use_position_shuffle :: bool
  use_return_permutation :: bool
  use_bootstrap :: bool

record Trade =
  entry_price :: double
  exit_price :: double
  days_held :: int
  pnl_pct :: double
  is_win :: bool

record SimulationResult =
  final_value :: double
  total_return_pct :: double
  max_drawdown_pct :: double
  num_trades :: int
  win_rate :: double
  sharpe_ratio :: double

text \<open>
  \<^verbatim>\<open>MonteCarloAnalysis result;\<close> default-initialises the struct: the two vectors are
  empty, every scalar member is indeterminate until assigned. Every scalar member
  has an option type: \<open>None\<close> is the indeterminate value of a member that was never
  assigned, \<open>Some v\<close> the value \<open>v\<close> that was assigned.
\<close>

record MonteCarloAnalysis =
  simulations :: "SimulationResult list"
  p_value_strategy_vs_random :: "double option"
  p_value_strategy_vs_bootstrap :: "double option"
  percentile_5 :: "double option"
  percentile_25 :: "double option"
  percentile_50 :: "double option"
  percentile_75 :: "double option"
  percentile_95 :: "double option"
  ci_lower_95 :: "double option"
  ci_upper_95 :: "double option"
  original_return :: "double option"
  original_sharpe :: "double option"
  original_max_dd :: "double option"
  return_distribution :: "int list"
  distribution_min :: "double option"
  distribution_max :: "double option"
  seed_used :: "32 word option"
  num_trials :: "32 word option"

text \<open>The private state of \<^verbatim>\<open>class MonteCarloEngine\<close>.\<close>

record 'g MonteCarloEngine =
  rng :: 'g
  original_trades :: "Trade list"
  daily_returns :: "double list"
  prices :: "double list"

text \<open>
  The failure of the model: every generator starts with
  \<^verbatim>\<open>results.reserve(num_simulations)\<close> on its empty result vector, before it looks
  at the stored input. The \<^verbatim>\<open>int\<close> converts to \<^verbatim>\<open>size_type\<close>: a negative one to a
  value above \<^verbatim>\<open>max_size()\<close> on every platform, and \<^verbatim>\<open>reserve\<close> throws
  \<^verbatim>\<open>std::length_error\<close>. A request of \<open>0\<close> elements asks for nothing and returns.
  For a positive request the platform decides: \<^verbatim>\<open>reserve\<close> throws
  \<^verbatim>\<open>std::length_error\<close> when the request is above \<^verbatim>\<open>max_size()\<close> and
  \<^verbatim>\<open>std::bad_alloc\<close> when the memory cannot be had. The platform is a parameter
  of the model: \<open>pf n\<close> is what the reservation of \<open>n\<close> results throws, \<open>None\<close> when
  it succeeds. Only this reservation, whose size the caller chooses, can fail in
  the model; the allocations whose size is that of the stored input or of the
  report are assumed to succeed.
\<close>

datatype error = LengthError | BadAlloc

type_synonym platform = "nat \<Rightarrow> error option"

definition reserve :: "platform \<Rightarrow> int \<Rightarrow> error + unit" where
  "reserve pf n =
     (if n < 0 then Inl LengthError
      else if n = 0 then Inr ()
      else (case pf (nat n) of Some err \<Rightarrow> Inl err | None \<Rightarrow> Inr ()))"

text \<open>A platform that grants every reservation.\<close>

definition roomy :: platform where
  "roomy = (\<lambda>n. None)"

subsection \<open>Statistics helpers\<close>

text \<open>\<^verbatim>\<open>computePValue\<close> (lines 293--304): the loop counts in \<open>count_better\<close>.\<close>

definition computePValue :: "double \<Rightarrow> double list \<Rightarrow> double" where
  "computePValue observed_value simulated_values =
     (if simulated_values = [] then 1
      else
        let count_better =
              foldl (\<lambda>c sim_val. if sim_val \<ge> observed_value then c + 1 else c)
                (0::int) simulated_values
        in real_of_int count_better / real (length simulated_values))"

text \<open>
  \<^verbatim>\<open>calculateMaxDrawdown\<close> (lines 252--269): the loop state is the pair
  \<open>(max_dd, peak)\<close>, and the loop visits every point of the curve, the first
  included.
\<close>

definition drawdown_step :: "double \<times> double \<Rightarrow> double \<Rightarrow> double \<times> double" where
  "drawdown_step s v =
     (let max_dd = fst s;
          peak = (if v > snd s then v else snd s);
          drawdown = (peak - v) / peak
      in (if drawdown > max_dd then drawdown else max_dd, peak))"

definition calculateMaxDrawdown :: "double list \<Rightarrow> double" where
  "calculateMaxDrawdown equity_curve =
     (if equity_curve = [] then 0
      else fst (foldl drawdown_step (0, hd equity_curve) equity_curve) * 100)"

text \<open>
  The arithmetic of \<^verbatim>\<open>double\<close>, as far as \<^verbatim>\<open>calculateSharpeRatio\<close> uses it: the
  conversion of an integer, the four operations, \<^verbatim>\<open>std::sqrt\<close> and \<^verbatim>\<open>==\<close>. Nothing
  is assumed of them: in IEEE arithmetic they round, a division by zero gives an
  infinity or a NaN, and a NaN is equal to nothing. The literals \<^verbatim>\<open>0.0\<close> and
  \<^verbatim>\<open>252.0\<close> and the \<^verbatim>\<open>0\<close> of \<^verbatim>\<open>std_dev == 0\<close> are the conversions of \<open>0\<close> and
  \<open>252\<close>.
\<close>

record 'd arith =
  d_of_nat :: "nat \<Rightarrow> 'd"
  d_add :: "'d \<Rightarrow> 'd \<Rightarrow> 'd"
  d_sub :: "'d \<Rightarrow> 'd \<Rightarrow> 'd"
  d_mul :: "'d \<Rightarrow> 'd \<Rightarrow> 'd"
  d_div :: "'d \<Rightarrow> 'd \<Rightarrow> 'd"
  d_sqrt :: "'d \<Rightarrow> 'd"
  d_eq :: "'d \<Rightarrow> 'd \<Rightarrow> bool"

text \<open>
  \<^verbatim>\<open>calculateSharpeRatio\<close> (lines 224--250), over an arithmetic \<open>A\<close>.
  \<open>step_returns\<close> is the first loop, \<open>(v[i] - v[i-1]) / v[i-1]\<close> for
  \<open>i = 1 ..< size\<close>; the division is the arithmetic's, unguarded as in the source.
\<close>

fun step_returns :: "'d arith \<Rightarrow> 'd list \<Rightarrow> 'd list" where
  "step_returns A (a # b # vs) = d_div A (d_sub A b a) a # step_returns A (b # vs)"
| "step_returns A vs = []"

definition calculateSharpeRatio :: "'d arith \<Rightarrow> 'd list \<Rightarrow> 'd" where
  "calculateSharpeRatio A equity_curve =
     (if length equity_curve < 2 then d_of_nat A 0
      else
        let returns = step_returns A equity_curve in
        if returns = [] then d_of_nat A 0
        else
          let sum = foldl (d_add A) (d_of_nat A 0) returns;
              mean = d_div A sum (d_of_nat A (length returns));
              sq_sum = foldl (\<lambda>s r. d_add A s (d_mul A (d_sub A r mean) (d_sub A r mean)))
                         (d_of_nat A 0) returns;
              std_dev = d_sqrt A (d_div A sq_sum (d_of_nat A (length returns)))
          in if d_eq A std_dev (d_of_nat A 0) then d_of_nat A 0
             else d_mul A (d_div A mean std_dev) (d_sqrt A (d_of_nat A 252)))"







text \<open>
  Two arithmetics. \<open>exact\<close> is the arithmetic of the real numbers, with HOL's
  \<open>x / 0 = 0\<close>: the idealisation in which the paths and the report are evaluated.
  \<open>extended\<close> adds the special values of IEEE arithmetic to the real numbers, the
  two infinities and NaN, with IEEE's rules for them; it does not round and has
  one zero, which counts as positive where a sign is needed.
\<close>

definition exact :: "real arith" where
  "exact =
     \<lparr> d_of_nat = real, d_add = (+), d_sub = (-), d_mul = (*), d_div = (/),
       d_sqrt = sqrt, d_eq = (=) \<rparr>"











subsection \<open>The random source\<close>

text \<open>
  \<open>uid a b g\<close> models \<^verbatim>\<open>std::uniform_int_distribution<T>(a, b)(g)\<close>: the number drawn
  and the generator's state after the draw. The library promises a result in the
  closed range \<open>[a, b]\<close>; \<open>uid_ok\<close> is this promise. A theorem that depends on it
  assumes it.
\<close>

type_synonym 'g uid = "nat \<Rightarrow> nat \<Rightarrow> 'g \<Rightarrow> nat \<times> 'g"

definition uid_ok :: "'g uid \<Rightarrow> bool" where
  "uid_ok uid = (\<forall>a b g. a \<le> b \<longrightarrow> a \<le> fst (uid a b g) \<and> fst (uid a b g) \<le> b)"

text \<open>
  \<^verbatim>\<open>std::shuffle(first, last, g)\<close> as the C++ library of the Emscripten toolchain
  (the one \<^verbatim>\<open>bindings.cpp\<close> targets) implements it: nothing for fewer than two
  elements; otherwise, for every position \<open>k\<close> but the last, with \<open>d\<close> the number
  of positions after \<open>k\<close>, draw \<open>i\<close> from \<open>[0, d]\<close> and, unless \<open>i = 0\<close>, swap the
  elements at \<open>k\<close> and \<open>k + i\<close>.
\<close>

definition iter_swap :: "nat \<Rightarrow> nat \<Rightarrow> 'a list \<Rightarrow> 'a list" where
  "iter_swap i j xs = xs[i := xs ! j, j := xs ! i]"

fun shuffle_loop :: "'g uid \<Rightarrow> nat \<Rightarrow> nat \<Rightarrow> 'a list \<Rightarrow> 'g \<Rightarrow> 'a list \<times> 'g" where
  "shuffle_loop uid k 0 xs g = (xs, g)"
| "shuffle_loop uid k (Suc d) xs g =
     (let (i, g1) = uid 0 (Suc d) g;
          xs1 = (if i \<noteq> 0 then iter_swap k (k + i) xs else xs)
      in shuffle_loop uid (Suc k) d xs1 g1)"

definition std_shuffle :: "'g uid \<Rightarrow> 'a list \<Rightarrow> 'g \<Rightarrow> 'a list \<times> 'g" where
  "std_shuffle uid xs g =
     (if length xs > 1 then shuffle_loop uid 0 (length xs - 1) xs g else (xs, g))"

text \<open>
  The outer loop of each generator, \<^verbatim>\<open>for (int i = 0; i < num_simulations; ++i)\<close>:
  \<open>n\<close> times, run the body on the generator's current state and push its result.
\<close>

fun simulate_n :: "nat \<Rightarrow> ('g \<Rightarrow> 'a \<times> 'g) \<Rightarrow> 'g \<Rightarrow> 'a list \<times> 'g" where
  "simulate_n 0 body g = ([], g)"
| "simulate_n (Suc n) body g =
     (let (x, g1) = body g;
          (xs, g2) = simulate_n n body g1
      in (x # xs, g2))"

subsection \<open>The path evaluator\<close>

text \<open>
  The equity loop (lines 92--100, 140--151, 195--203): the state is
  \<open>(capital, equity_curve)\<close>, starting from \<open>100000\<close>.
\<close>

definition equity_step :: "double \<times> double list \<Rightarrow> double \<Rightarrow> double \<times> double list" where
  "equity_step s r = (let capital = fst s * (1 + r) in (capital, snd s @ [capital]))"

definition simulate_equity :: "double list \<Rightarrow> double \<times> double list" where
  "simulate_equity rets = foldl equity_step (100000, [100000]) rets"

text \<open>
  Lines 91--118 of \<^verbatim>\<open>runPositionShuffle\<close>, and the same code at lines 194--218 of
  \<^verbatim>\<open>runBootstrap\<close>: the \<^verbatim>\<open>SimulationResult\<close> of one sequence of trade outcomes. The
  Sharpe ratio of a path is evaluated in the exact arithmetic, like the rest of the
  path.
\<close>

definition trade_path_result :: "double list \<Rightarrow> SimulationResult" where
  "trade_path_result pnls =
     (let (capital, equity_curve) = simulate_equity pnls;
          wins = foldl (\<lambda>w pnl. if pnl > 0 then w + 1 else w) (0::int) pnls
      in \<lparr> final_value = capital,
           total_return_pct = ((capital - 100000) / 100000) * 100,
           max_drawdown_pct = calculateMaxDrawdown equity_curve,
           num_trades = int (length pnls),
           win_rate = (if pnls = [] then 0
                       else (real_of_int wins / real (length pnls)) * 100),
           sharpe_ratio = calculateSharpeRatio exact equity_curve \<rparr>)"

text \<open>Lines 139--159 of \<^verbatim>\<open>runReturnPermutation\<close>.\<close>

definition return_path_result :: "int \<Rightarrow> double list \<Rightarrow> SimulationResult" where
  "return_path_result num_days permuted_returns =
     (let (capital, equity_curve) = simulate_equity permuted_returns
      in \<lparr> final_value = capital,
           total_return_pct = ((capital - 100000) / 100000) * 100,
           max_drawdown_pct = calculateMaxDrawdown equity_curve,
           num_trades = num_days div 20,
           win_rate = 50,
           sharpe_ratio = calculateSharpeRatio exact equity_curve \<rparr>)"

subsection \<open>The three generators\<close>

text \<open>Lines 79--84 and 175--180: the P&L percentages as fractions.\<close>

definition trade_pnls :: "Trade list \<Rightarrow> double list" where
  "trade_pnls trades = map (\<lambda>trade. pnl_pct trade / 100) trades"

text \<open>
  \<^verbatim>\<open>runPositionShuffle\<close> (lines 71--122), on the platform \<open>pf\<close>. The reservation
  comes before the test for an empty Trade list, as in the source.
\<close>

definition shuffle_body :: "'g uid \<Rightarrow> double list \<Rightarrow> 'g \<Rightarrow> SimulationResult \<times> 'g" where
  "shuffle_body uid pnls g =
     (let (shuffled_pnls, g1) = std_shuffle uid pnls g
      in (trade_path_result shuffled_pnls, g1))"

definition runPositionShuffle_mem ::
  "platform \<Rightarrow> 'g uid \<Rightarrow> int \<Rightarrow> 'g MonteCarloEngine \<Rightarrow>
   error + (SimulationResult list \<times> 'g MonteCarloEngine)"
where
  "runPositionShuffle_mem pf uid n e =
     (case reserve pf n of
        Inl err \<Rightarrow> Inl err
      | Inr _ \<Rightarrow>
          if original_trades e = [] then Inr ([], e)
          else
            let (results, g1) =
                  simulate_n (nat n) (shuffle_body uid (trade_pnls (original_trades e))) (rng e)
            in Inr (results, e\<lparr>rng := g1\<rparr>))"

text \<open>\<^verbatim>\<open>runReturnPermutation\<close> (lines 124--165), on the platform \<open>pf\<close>.\<close>

definition permutation_body ::
  "'g uid \<Rightarrow> int \<Rightarrow> double list \<Rightarrow> 'g \<Rightarrow> SimulationResult \<times> 'g" where
  "permutation_body uid num_days rets g =
     (let (permuted_returns, g1) = std_shuffle uid rets g
      in (return_path_result num_days permuted_returns, g1))"

definition runReturnPermutation_mem ::
  "platform \<Rightarrow> 'g uid \<Rightarrow> int \<Rightarrow> 'g MonteCarloEngine \<Rightarrow>
   error + (SimulationResult list \<times> 'g MonteCarloEngine)"
where
  "runReturnPermutation_mem pf uid n e =
     (case reserve pf n of
        Inl err \<Rightarrow> Inl err
      | Inr _ \<Rightarrow>
          if daily_returns e = [] then Inr ([], e)
          else
            let num_days = int (length (daily_returns e));
                (results, g1) =
                  simulate_n (nat n) (permutation_body uid num_days (daily_returns e)) (rng e)
            in Inr (results, e\<lparr>rng := g1\<rparr>))"

text \<open>
  \<^verbatim>\<open>runBootstrap\<close> (lines 167--222), on the platform \<open>pf\<close>. \<open>bootstrap_sample\<close> is
  the inner loop over
  \<open>j\<close>: one draw from \<open>[0, size - 1]\<close> per element. An index outside the vector is
  undefined behaviour in the source and an unspecified element here; \<open>uid_ok\<close>
  excludes it.
\<close>

fun bootstrap_sample :: "'g uid \<Rightarrow> nat \<Rightarrow> double list \<Rightarrow> 'g \<Rightarrow> double list \<times> 'g" where
  "bootstrap_sample uid 0 pnls g = ([], g)"
| "bootstrap_sample uid (Suc j) pnls g =
     (let (idx, g1) = uid 0 (length pnls - 1) g;
          (rest, g2) = bootstrap_sample uid j pnls g1
      in (pnls ! idx # rest, g2))"

definition bootstrap_body :: "'g uid \<Rightarrow> double list \<Rightarrow> 'g \<Rightarrow> SimulationResult \<times> 'g" where
  "bootstrap_body uid pnls g =
     (let (bootstrapped_pnls, g1) = bootstrap_sample uid (length pnls) pnls g
      in (trade_path_result bootstrapped_pnls, g1))"

definition runBootstrap_mem ::
  "platform \<Rightarrow> 'g uid \<Rightarrow> int \<Rightarrow> 'g MonteCarloEngine \<Rightarrow>
   error + (SimulationResult list \<times> 'g MonteCarloEngine)"
where
  "runBootstrap_mem pf uid n e =
     (case reserve pf n of
        Inl err \<Rightarrow> Inl err
      | Inr _ \<Rightarrow>
          if original_trades e = [] then Inr ([], e)
          else
            let (results, g1) =
                  simulate_n (nat n) (bootstrap_body uid (trade_pnls (original_trades e))) (rng e)
            in Inr (results, e\<lparr>rng := g1\<rparr>))"

text \<open>
  The three generators on a platform that grants every reservation: they fail for
  a negative request only.
\<close>

definition runPositionShuffle ::
  "'g uid \<Rightarrow> int \<Rightarrow> 'g MonteCarloEngine \<Rightarrow> error + (SimulationResult list \<times> 'g MonteCarloEngine)"
where
  "runPositionShuffle uid n e = runPositionShuffle_mem roomy uid n e"

definition runReturnPermutation ::
  "'g uid \<Rightarrow> int \<Rightarrow> 'g MonteCarloEngine \<Rightarrow> error + (SimulationResult list \<times> 'g MonteCarloEngine)"
where
  "runReturnPermutation uid n e = runReturnPermutation_mem roomy uid n e"

definition runBootstrap ::
  "'g uid \<Rightarrow> int \<Rightarrow> 'g MonteCarloEngine \<Rightarrow> error + (SimulationResult list \<times> 'g MonteCarloEngine)"
where
  "runBootstrap uid n e = runBootstrap_mem roomy uid n e"

text \<open>
  The outcome-sequences of a run: the values that the local variables
  \<^verbatim>\<open>shuffled_pnls\<close>, \<^verbatim>\<open>permuted_returns\<close> and \<^verbatim>\<open>bootstrapped_pnls\<close> take, iteration
  by iteration. The source does not return them; the theorems about "the sequence
  that produced a result" speak of them.
\<close>

definition position_shuffle_seqs :: "'g uid \<Rightarrow> int \<Rightarrow> 'g MonteCarloEngine \<Rightarrow> double list list" where
  "position_shuffle_seqs uid n e =
     (if original_trades e = [] then []
      else fst (simulate_n (nat n) (std_shuffle uid (trade_pnls (original_trades e))) (rng e)))"

definition return_permutation_seqs :: "'g uid \<Rightarrow> int \<Rightarrow> 'g MonteCarloEngine \<Rightarrow> double list list" where
  "return_permutation_seqs uid n e =
     (if daily_returns e = [] then []
      else fst (simulate_n (nat n) (std_shuffle uid (daily_returns e)) (rng e)))"

definition bootstrap_seqs :: "'g uid \<Rightarrow> int \<Rightarrow> 'g MonteCarloEngine \<Rightarrow> double list list" where
  "bootstrap_seqs uid n e =
     (if original_trades e = [] then []
      else fst (simulate_n (nat n)
             (\<lambda>g. bootstrap_sample uid (length (trade_pnls (original_trades e)))
                     (trade_pnls (original_trades e)) g) (rng e)))"

subsection \<open>The aggregator\<close>

text \<open>
  \<^verbatim>\<open>computePercentiles\<close> (lines 271--291) sorts the vector it is given by reference
  and assigns the five percentiles: it returns the vector and the report as it
  leaves them. \<^verbatim>\<open>std::sort\<close> is \<open>sort\<close>: on a linear order the ascending
  arrangement of a list is unique. The index is a \<^verbatim>\<open>double\<close> converted to
  \<^verbatim>\<open>size_t\<close>, that is truncated; it is never negative.
\<close>

definition get_percentile :: "double list \<Rightarrow> double \<Rightarrow> double" where
  "get_percentile values p =
     (if values = [] then 0
      else values ! nat \<lfloor>p * real (length values - 1) / 100\<rfloor>)"

definition computePercentiles ::
  "double list \<Rightarrow> MonteCarloAnalysis \<Rightarrow> double list \<times> MonteCarloAnalysis" where
  "computePercentiles values result =
     (if values = [] then
        (values, result\<lparr> percentile_95 := Some 0, percentile_75 := Some 0,
                         percentile_50 := Some 0, percentile_25 := Some 0,
                         percentile_5 := Some 0 \<rparr>)
      else
        let sorted_values = sort values
        in (sorted_values,
            result\<lparr> percentile_5 := Some (get_percentile sorted_values 5),
                    percentile_25 := Some (get_percentile sorted_values 25),
                    percentile_50 := Some (get_percentile sorted_values 50),
                    percentile_75 := Some (get_percentile sorted_values 75),
                    percentile_95 := Some (get_percentile sorted_values 95) \<rparr>))"

text \<open>
  The histogram loop (lines 59--64). \<^verbatim>\<open>static_cast<int>\<close> of a \<^verbatim>\<open>double\<close> truncates
  towards zero.
\<close>

definition static_cast_int :: "double \<Rightarrow> int" where
  "static_cast_int x = (if x \<ge> 0 then \<lfloor>x\<rfloor> else \<lceil>x\<rceil>)"

definition histogram_step :: "double \<Rightarrow> double \<Rightarrow> int list \<Rightarrow> double \<Rightarrow> int list" where
  "histogram_step dmin bin_width hist ret =
     (let bin = static_cast_int ((ret - dmin) / bin_width)
      in if bin \<ge> 0 \<and> bin < 20 then hist[nat bin := hist ! nat bin + 1] else hist)"

text \<open>
  Lines 51--66: the histogram and its bounds, written into the report.
  \<^verbatim>\<open>*std::min_element\<close> and \<^verbatim>\<open>*std::max_element\<close> of a vector that is not empty are
  the least and the greatest of its elements.
\<close>

definition build_histogram :: "double list \<Rightarrow> MonteCarloAnalysis \<Rightarrow> MonteCarloAnalysis" where
  "build_histogram returns result =
     (let result = result\<lparr> return_distribution := replicate 20 0 \<rparr>
      in if returns \<noteq> [] then
           let dmin = Min (set returns);
               dmax = Max (set returns);
               result = result\<lparr> distribution_min := Some dmin, distribution_max := Some dmax \<rparr>;
               bin_width = (dmax - dmin) / 20
           in if bin_width > 0 then
                result\<lparr> return_distribution :=
                  foldl (histogram_step dmin bin_width) (return_distribution result) returns \<rparr>
              else result
         else result)"

text \<open>
  \<^verbatim>\<open>MonteCarloAnalysis result;\<close> (line 23): two empty vectors, every scalar
  indeterminate.
\<close>

definition default_analysis :: MonteCarloAnalysis where
  "default_analysis =
     \<lparr> simulations = [],
       p_value_strategy_vs_random = None, p_value_strategy_vs_bootstrap = None,
       percentile_5 = None, percentile_25 = None, percentile_50 = None,
       percentile_75 = None, percentile_95 = None,
       ci_lower_95 = None, ci_upper_95 = None,
       original_return = None, original_sharpe = None, original_max_dd = None,
       return_distribution = [],
       distribution_min = None, distribution_max = None,
       seed_used = None, num_trials = None \<rparr>"

text \<open>
  \<^verbatim>\<open>runAnalysis\<close> (lines 22--69). \<open>aggregate\<close> is everything it does to the report
  (lines 23--25 and 32--68), given the results of the three generators;
  \<open>runAnalysis_mem\<close> runs the generators in the order of the source, each on the
  engine as the one before left it. \<^verbatim>\<open>config.num_simulations / 3\<close> is a division of
  \<^verbatim>\<open>uint32_t\<close>; its result is converted to the \<^verbatim>\<open>int\<close> parameter of the generators.
  The result vectors of the earlier generators are still alive when a later one
  reserves its own, so the platform may answer each of the three reservations
  differently: \<open>pfs k\<close> is its answer to the reservation number \<open>k\<close> of the run.
\<close>

definition aggregate ::
  "SimulationConfig \<Rightarrow> SimulationResult list \<Rightarrow> SimulationResult list \<Rightarrow>
   SimulationResult list \<Rightarrow> MonteCarloAnalysis" where
  "aggregate config shuffle_results perm_results bootstrap_results =
     (let result = default_analysis\<lparr> seed_used := Some (seed config),
                                     num_trials := Some (num_simulations config) \<rparr>;
          result = result\<lparr> simulations := simulations result @ shuffle_results \<rparr>;
          result = result\<lparr> simulations := simulations result @ perm_results \<rparr>;
          result = result\<lparr> simulations := simulations result @ bootstrap_results \<rparr>;
          returns = map total_return_pct (simulations result);
          (returns, result) = computePercentiles returns result;
          result = result\<lparr> ci_lower_95 := percentile_5 result \<rparr>;
          result = result\<lparr> ci_upper_95 := percentile_95 result \<rparr>
      in build_histogram returns result)"

definition runAnalysis_mem ::
  "(nat \<Rightarrow> platform) \<Rightarrow> 'g uid \<Rightarrow> SimulationConfig \<Rightarrow> 'g MonteCarloEngine \<Rightarrow>
   error + (MonteCarloAnalysis \<times> 'g MonteCarloEngine)" where
  "runAnalysis_mem pfs uid config e =
     (let n = sint (num_simulations config div 3) in
      case runPositionShuffle_mem (pfs 0) uid n e of
        Inl err \<Rightarrow> Inl err
      | Inr (shuffle_results, e1) \<Rightarrow>
          (case runReturnPermutation_mem (pfs 1) uid n e1 of
             Inl err \<Rightarrow> Inl err
           | Inr (perm_results, e2) \<Rightarrow>
               (case runBootstrap_mem (pfs 2) uid n e2 of
                  Inl err \<Rightarrow> Inl err
                | Inr (bootstrap_results, e3) \<Rightarrow>
                    Inr (aggregate config shuffle_results perm_results bootstrap_results, e3))))"

text \<open>\<^verbatim>\<open>runAnalysis\<close> on a platform that grants every reservation.\<close>

definition runAnalysis ::
  "'g uid \<Rightarrow> SimulationConfig \<Rightarrow> 'g MonteCarloEngine \<Rightarrow>
   error + (MonteCarloAnalysis \<times> 'g MonteCarloEngine)" where
  "runAnalysis uid config e = runAnalysis_mem (\<lambda>k. roomy) uid config e"

text \<open>
  The histogram that \<open>build_histogram\<close> leaves in the report, as a function of the
  vector of returns it is given.
\<close>

definition histogram_of :: "double list \<Rightarrow> int list" where
  "histogram_of rets =
     (if rets \<noteq> [] \<and> Min (set rets) < Max (set rets)
      then foldl (histogram_step (Min (set rets)) ((Max (set rets) - Min (set rets)) / 20))
             (replicate 20 0) rets
      else replicate 20 0)"

text \<open>The test of the histogram loop: the bin index of a return is a valid bucket.\<close>

definition in_bucket :: "double \<Rightarrow> double \<Rightarrow> double \<Rightarrow> bool" where
  "in_bucket dmin bin_width ret =
     (0 \<le> static_cast_int ((ret - dmin) / bin_width) \<and>
      static_cast_int ((ret - dmin) / bin_width) < 20)"

subsection \<open>The input holder\<close>

text \<open>
  The constructor (line 8) seeds the generator with the given seed, or with a
  number read from \<^verbatim>\<open>std::random_device\<close> when the seed is \<open>0\<close>. \<open>seed_rng\<close> is the
  seeding of \<^verbatim>\<open>std::mt19937_64\<close>, \<open>device\<close> the number that the device returns.
\<close>

definition MonteCarloEngine_ctor :: "(32 word \<Rightarrow> 'g) \<Rightarrow> 32 word \<Rightarrow> 32 word \<Rightarrow> 'g MonteCarloEngine" where
  "MonteCarloEngine_ctor seed_rng device seed0 =
     \<lparr> rng = seed_rng (if seed0 = 0 then device else seed0),
       original_trades = [], daily_returns = [], prices = [] \<rparr>"

definition setTrades :: "Trade list \<Rightarrow> 'g MonteCarloEngine \<Rightarrow> 'g MonteCarloEngine" where
  "setTrades trades e = e\<lparr> original_trades := trades \<rparr>"

definition setReturns :: "double list \<Rightarrow> 'g MonteCarloEngine \<Rightarrow> 'g MonteCarloEngine" where
  "setReturns returns e = e\<lparr> daily_returns := returns \<rparr>"

definition setPrices :: "double list \<Rightarrow> 'g MonteCarloEngine \<Rightarrow> 'g MonteCarloEngine" where
  "setPrices ps e = e\<lparr> prices := ps \<rparr>"

subsection \<open>A random source for concrete runs\<close>

text \<open>
  To run the model on concrete inputs, the generator's state is the list of the
  raw numbers it will produce, and a draw from \<open>[a, b]\<close> reduces the next raw number
  into the range. \<open>tape_uid\<close> keeps the library's promise \<open>uid_ok\<close>.
\<close>

fun tape_uid :: "nat list uid" where
  "tape_uid a b [] = (a, [])"
| "tape_uid a b (x # tape) = (a + x mod (b - a + 1), tape)"

definition tape_seed :: "32 word \<Rightarrow> nat list" where
  "tape_seed w = [unat w, unat w, unat w, unat w + 1, unat w + 1, unat w + 1]"

definition trade_of_pnl :: "double \<Rightarrow> Trade" where
  "trade_of_pnl p =
     \<lparr> entry_price = 100, exit_price = 100 + p, days_held = 1, pnl_pct = p, is_win = (p > 0) \<rparr>"

definition config_of :: "32 word \<Rightarrow> 32 word \<Rightarrow> SimulationConfig" where
  "config_of n s =
     \<lparr> num_simulations = n, seed = s, initial_capital = 100000, risk_per_trade = 2 / 100,
       atr_multiplier = 3, tax_rate = 2 / 1000, use_position_shuffle = True,
       use_return_permutation = True, use_bootstrap = True \<rparr>"


text \<open>A platform that cannot hold more than \<open>10^9\<close> results in one vector.\<close>

definition limited :: platform where
  "limited n = (if n \<le> 1000000000 then None else Some BadAlloc)"

text \<open>A configuration that differs from \<open>config_of 3 42\<close> in every field but the first.\<close>

definition config_other :: SimulationConfig where
  "config_other =
     \<lparr> num_simulations = 3, seed = 7, initial_capital = 1, risk_per_trade = 1,
       atr_multiplier = 1, tax_rate = 0, use_position_shuffle = False,
       use_return_permutation = False, use_bootstrap = False \<rparr>"

text \<open>An engine with one trade of \<open>+100%\<close> and one daily return of \<open>0\<close>.\<close>

definition example_engine :: "nat list MonteCarloEngine" where
  "example_engine =
     \<lparr> rng = [], original_trades = [trade_of_pnl 100], daily_returns = [0], prices = [] \<rparr>"

text \<open>
  An engine built with the seed \<open>42\<close> and given two trades, of \<open>+100%\<close> and of
  \<open>0%\<close>; and an engine built with the seed \<open>42\<close> and given nothing.
\<close>

definition seeded_engine :: "nat list MonteCarloEngine" where
  "seeded_engine =
     setTrades [trade_of_pnl 100, trade_of_pnl 0] (MonteCarloEngine_ctor tape_seed 0 42)"

definition empty_engine :: "nat list MonteCarloEngine" where
  "empty_engine = MonteCarloEngine_ctor tape_seed 0 42"

section \<open>Theorems\<close>

subsection \<open>Helper lemmas\<close>

subsubsection \<open>The counting and summing loops\<close>

lemma foldl_count_ge:
  "foldl (\<lambda>c v. if v \<ge> (x::real) then c + 1 else c) (c0::int) vs =
     c0 + int (length (filter (\<lambda>v. v \<ge> x) vs))"
  by (induction vs arbitrary: c0) auto



lemma drawdown_sorted:
  "sorted (peak # vs) \<Longrightarrow> foldl drawdown_step (0, peak) vs = (0, last (peak # vs))"
proof (induction vs arbitrary: peak)
  case Nil
  then show ?case by simp
next
  case (Cons v vs)
  from Cons.prems have le: "peak \<le> v" and s: "sorted (v # vs)" by simp_all
  from le have "drawdown_step (0, peak) v = (0, v)"
    by (auto simp: drawdown_step_def Let_def)
  with Cons.IH [OF s] show ?case by simp
qed

subsubsection \<open>The outer loop\<close>

lemma simulate_n_length: "length (fst (simulate_n n body g)) = n"
proof (induction n arbitrary: g)
  case 0
  then show ?case by simp
next
  case (Suc n)
  obtain y g1 where b: "body g = (y, g1)" by (cases "body g")
  obtain ys g2 where r: "simulate_n n body g1 = (ys, g2)" by (cases "simulate_n n body g1")
  from Suc.IH [of g1] r have "length ys = n" by simp
  with b r show ?case by (simp add: Let_def)
qed

lemma simulate_n_map:
  "simulate_n n (\<lambda>g. case draw g of (x, g1) \<Rightarrow> (f x, g1)) g =
     (map f (fst (simulate_n n draw g)), snd (simulate_n n draw g))"
  by (induction n arbitrary: g) (simp_all add: Let_def case_prod_beta)

lemma simulate_n_all:
  "(\<And>g. P (fst (body g))) \<Longrightarrow> x \<in> set (fst (simulate_n n body g)) \<Longrightarrow> P x"
proof (induction n arbitrary: g)
  case 0
  then show ?case by simp
next
  case (Suc n)
  obtain y g1 where b: "body g = (y, g1)" by (cases "body g")
  obtain ys g2 where r: "simulate_n n body g1 = (ys, g2)" by (cases "simulate_n n body g1")
  from Suc.prems(2) b r have "x = y \<or> x \<in> set (fst (simulate_n n body g1))"
    by (simp add: Let_def)
  then show ?case
  proof
    assume "x = y"
    with Suc.prems(1) [of g] b show ?thesis by simp
  next
    assume "x \<in> set (fst (simulate_n n body g1))"
    with Suc.IH Suc.prems(1) show ?thesis by blast
  qed
qed

subsubsection \<open>The shuffle and the random source\<close>

lemma iter_swap_length: "length (iter_swap i j xs) = length xs"
  by (simp add: iter_swap_def)


lemma shuffle_loop_length: "length (fst (shuffle_loop uid k d xs g)) = length xs"
  by (induction uid k d xs g rule: shuffle_loop.induct)
     (auto simp: Let_def iter_swap_length split: prod.splits)


lemma std_shuffle_length: "length (fst (std_shuffle uid xs g)) = length xs"
  by (simp add: std_shuffle_def shuffle_loop_length)


lemma bootstrap_sample_length: "length (fst (bootstrap_sample uid j pnls g)) = j"
  by (induction j arbitrary: g) (simp_all add: Let_def case_prod_beta)

lemma tape_uid_ok: "uid_ok tape_uid"
  unfolding uid_ok_def
proof (intro allI impI)
  fix a b :: nat and g :: "nat list"
  assume "a \<le> b"
  then show "a \<le> fst (tape_uid a b g) \<and> fst (tape_uid a b g) \<le> b"
  proof (cases g)
    case Nil
    with \<open>a \<le> b\<close> show ?thesis by simp
  next
    case (Cons x tape)
    have "a + x mod Suc (b - a) \<le> a + (b - a)"
      by (rule add_left_mono) (rule mod_Suc_le_divisor)
    with \<open>a \<le> b\<close> have "a + x mod Suc (b - a) \<le> b" by linarith
    with Cons show ?thesis by simp
  qed
qed

lemma bootstrap_sample_set:
  "uid_ok uid \<Longrightarrow> pnls \<noteq> [] \<Longrightarrow> set (fst (bootstrap_sample uid j pnls g)) \<subseteq> set pnls"
proof (induction j arbitrary: g)
  case 0
  then show ?case by simp
next
  case (Suc j)
  obtain idx g1 where u: "uid 0 (length pnls - 1) g = (idx, g1)"
    by (cases "uid 0 (length pnls - 1) g")
  from Suc.prems(1) have "fst (uid 0 (length pnls - 1) g) \<le> length pnls - 1"
    unfolding uid_ok_def by blast
  with u Suc.prems(2) have "idx < length pnls" by (cases pnls) simp_all
  then have "pnls ! idx \<in> set pnls" by simp
  with Suc.IH [OF Suc.prems, of g1] u show ?case
    by (simp add: Let_def case_prod_beta)
qed

subsubsection \<open>The generators\<close>

lemma reserve_nonneg: "0 \<le> n \<Longrightarrow> reserve roomy n = Inr ()"
  by (simp add: reserve_def roomy_def)

lemma reserve_neg: "n < 0 \<Longrightarrow> reserve pf n = Inl LengthError"
  by (simp add: reserve_def)

lemma shuffle_body_alt:
  "shuffle_body uid pnls =
     (\<lambda>g. case std_shuffle uid pnls g of (s, g1) \<Rightarrow> (trade_path_result s, g1))"
  by (simp add: shuffle_body_def fun_eq_iff)

lemma permutation_body_alt:
  "permutation_body uid d rets =
     (\<lambda>g. case std_shuffle uid rets g of (s, g1) \<Rightarrow> (return_path_result d s, g1))"
  by (simp add: permutation_body_def fun_eq_iff)

lemma bootstrap_body_alt:
  "bootstrap_body uid pnls =
     (\<lambda>g. case bootstrap_sample uid (length pnls) pnls g of
            (s, g1) \<Rightarrow> (trade_path_result s, g1))"
  by (simp add: bootstrap_body_def fun_eq_iff)

lemma runPositionShuffle_nonneg:
  "0 \<le> n \<Longrightarrow>
   runPositionShuffle uid n e =
     Inr (map trade_path_result (position_shuffle_seqs uid n e),
          if original_trades e = [] then e
          else e\<lparr>rng := snd (simulate_n (nat n)
                  (std_shuffle uid (trade_pnls (original_trades e))) (rng e))\<rparr>)"
  by (simp add: runPositionShuffle_def runPositionShuffle_mem_def position_shuffle_seqs_def
      reserve_nonneg
      shuffle_body_alt simulate_n_map)

lemma runReturnPermutation_nonneg:
  "0 \<le> n \<Longrightarrow>
   runReturnPermutation uid n e =
     Inr (map (return_path_result (int (length (daily_returns e))))
            (return_permutation_seqs uid n e),
          if daily_returns e = [] then e
          else e\<lparr>rng := snd (simulate_n (nat n) (std_shuffle uid (daily_returns e)) (rng e))\<rparr>)"
  by (simp add: runReturnPermutation_def runReturnPermutation_mem_def
      return_permutation_seqs_def reserve_nonneg
      permutation_body_alt simulate_n_map Let_def)

lemma runBootstrap_nonneg:
  "0 \<le> n \<Longrightarrow>
   runBootstrap uid n e =
     Inr (map trade_path_result (bootstrap_seqs uid n e),
          if original_trades e = [] then e
          else e\<lparr>rng := snd (simulate_n (nat n)
                  (bootstrap_sample uid (length (trade_pnls (original_trades e)))
                     (trade_pnls (original_trades e))) (rng e))\<rparr>)"
  by (simp add: runBootstrap_def runBootstrap_mem_def bootstrap_seqs_def reserve_nonneg
      bootstrap_body_alt simulate_n_map)

lemma runPositionShuffle_neg: "n < 0 \<Longrightarrow> runPositionShuffle uid n e = Inl LengthError"
  by (simp add: runPositionShuffle_def runPositionShuffle_mem_def reserve_neg)

lemma runReturnPermutation_neg: "n < 0 \<Longrightarrow> runReturnPermutation uid n e = Inl LengthError"
  by (simp add: runReturnPermutation_def runReturnPermutation_mem_def reserve_neg)

lemma runBootstrap_neg: "n < 0 \<Longrightarrow> runBootstrap uid n e = Inl LengthError"
  by (simp add: runBootstrap_def runBootstrap_mem_def reserve_neg)

lemma trade_path_result_num_trades: "num_trades (trade_path_result s) = int (length s)"
  by (simp add: trade_path_result_def Let_def case_prod_beta)

lemma return_path_result_num_trades: "num_trades (return_path_result d s) = d div 20"
  by (simp add: return_path_result_def Let_def case_prod_beta)

lemma foldl_count_pos:
  "foldl (\<lambda>w p. if p > (0::real) then w + 1 else w) (w0::int) ps =
     w0 + int (length (filter (\<lambda>p. p > 0) ps))"
  by (induction ps arbitrary: w0) auto

lemma trade_path_result_win_rate:
  "win_rate (trade_path_result s) =
     (if s = [] then 0 else real (length (filter (\<lambda>p. p > 0) s)) / real (length s) * 100)"
  by (simp add: trade_path_result_def Let_def case_prod_beta foldl_count_pos)

lemma position_shuffle_seqs_length:
  "length (position_shuffle_seqs uid n e) = (if original_trades e = [] then 0 else nat n)"
  by (simp add: position_shuffle_seqs_def simulate_n_length)

lemma return_permutation_seqs_length:
  "length (return_permutation_seqs uid n e) = (if daily_returns e = [] then 0 else nat n)"
  by (simp add: return_permutation_seqs_def simulate_n_length)

lemma bootstrap_seqs_length:
  "length (bootstrap_seqs uid n e) = (if original_trades e = [] then 0 else nat n)"
  by (simp add: bootstrap_seqs_def simulate_n_length)


lemma return_permutation_seqs_elem_length:
  "s \<in> set (return_permutation_seqs uid n e) \<Longrightarrow> length s = length (daily_returns e)"
proof -
  assume a: "s \<in> set (return_permutation_seqs uid n e)"
  then have ne: "daily_returns e \<noteq> []"
    by (auto simp: return_permutation_seqs_def split: if_splits)
  from a ne have "s \<in> set (fst (simulate_n (nat n) (std_shuffle uid (daily_returns e)) (rng e)))"
    by (simp add: return_permutation_seqs_def)
  then show "length s = length (daily_returns e)"
    by (rule simulate_n_all [rotated]) (rule std_shuffle_length)
qed


lemma list_all2_map_same: "list_all2 P (map f xs) xs = (\<forall>x\<in>set xs. P (f x) x)"
  by (simp add: list_all2_map1 list_all2_same)

subsubsection \<open>Unfolding the model on concrete inputs\<close>

lemmas gen_eval = runPositionShuffle_def runReturnPermutation_def runBootstrap_def
  runPositionShuffle_mem_def runReturnPermutation_mem_def runBootstrap_mem_def roomy_def
  reserve_def shuffle_body_def permutation_body_def bootstrap_body_def std_shuffle_def
  trade_pnls_def trade_of_pnl_def iter_swap_def position_shuffle_seqs_def
  return_permutation_seqs_def bootstrap_seqs_def Let_def

lemmas path_eval = trade_path_result_def return_path_result_def simulate_equity_def
  equity_step_def calculateMaxDrawdown_def drawdown_step_def calculateSharpeRatio_def exact_def

lemma simulate_n_2:
  "simulate_n 2 body g =
     ([fst (body g), fst (body (snd (body g)))], snd (body (snd (body g))))"
  by (simp add: numeral_2_eq_2 Let_def case_prod_beta)

subsubsection \<open>The third of the simulation count\<close>

lemma sint_third: "sint ((w::32 word) div 3) = int (unat w div 3)"
proof -
  have "uint w < 4294967296" using uint_lt2p [of w] by simp
  then have b: "uint w div 3 < 2147483648" by linarith
  have "0 \<le> uint w" by simp
  then have l: "- 2147483648 \<le> uint w div 3" by linarith
  have p: "(2::int) ^ 31 = 2147483648" by simp
  have s: "signed_take_bit 31 (uint w div 3) = uint w div 3"
    by (rule signed_take_bit_int_eq_self) (simp_all only: p l b)
  have len: "LENGTH(32) - Suc 0 = 31" by simp
  have d: "uint (w div 3) = uint w div 3" by (simp add: uint_div)
  have "sint (w div 3) = signed_take_bit (LENGTH(32) - Suc 0) (uint (w div 3))"
    by (rule sint_uint)
  also have "\<dots> = signed_take_bit 31 (uint w div 3)"
    by (simp only: len d)
  also have "\<dots> = uint w div 3"
    by (rule s)
  also have "\<dots> = int (unat w) div int 3"
    by (simp only: uint_nat of_nat_numeral)
  also have "\<dots> = int (unat w div 3)"
    by (rule zdiv_int [symmetric])
  finally show ?thesis .
qed

lemma sint_third_nonneg: "0 \<le> sint ((w::32 word) div 3)"
  by (simp only: sint_third of_nat_0_le_iff)

subsubsection \<open>The report as a function of the generated paths\<close>

lemma computePercentiles_fst: "fst (computePercentiles v r) = sort v"
  by (simp add: computePercentiles_def Let_def)

lemma computePercentiles_snd:
  "snd (computePercentiles v r) =
     r\<lparr> percentile_5 := Some (get_percentile (sort v) 5),
        percentile_25 := Some (get_percentile (sort v) 25),
        percentile_50 := Some (get_percentile (sort v) 50),
        percentile_75 := Some (get_percentile (sort v) 75),
        percentile_95 := Some (get_percentile (sort v) 95) \<rparr>"
  by (simp add: computePercentiles_def Let_def get_percentile_def)

lemma build_histogram_eq:
  "build_histogram rets r =
     r\<lparr> return_distribution := histogram_of rets,
        distribution_min := (if rets = [] then distribution_min r else Some (Min (set rets))),
        distribution_max := (if rets = [] then distribution_max r else Some (Max (set rets))) \<rparr>"
  by (simp add: build_histogram_def histogram_of_def Let_def)

lemma sort_Nil_iff: "(sort xs = []) = (xs = [])"
proof -
  have "length (sort xs) = length xs" by simp
  then show ?thesis by (metis length_0_conv)
qed

lemma aggregate_explicit:
  "aggregate config a b c =
     \<lparr> simulations = a @ b @ c,
       p_value_strategy_vs_random = None, p_value_strategy_vs_bootstrap = None,
       percentile_5 = Some (get_percentile (sort (map total_return_pct (a @ b @ c))) 5),
       percentile_25 = Some (get_percentile (sort (map total_return_pct (a @ b @ c))) 25),
       percentile_50 = Some (get_percentile (sort (map total_return_pct (a @ b @ c))) 50),
       percentile_75 = Some (get_percentile (sort (map total_return_pct (a @ b @ c))) 75),
       percentile_95 = Some (get_percentile (sort (map total_return_pct (a @ b @ c))) 95),
       ci_lower_95 = Some (get_percentile (sort (map total_return_pct (a @ b @ c))) 5),
       ci_upper_95 = Some (get_percentile (sort (map total_return_pct (a @ b @ c))) 95),
       original_return = None, original_sharpe = None, original_max_dd = None,
       return_distribution = histogram_of (sort (map total_return_pct (a @ b @ c))),
       distribution_min =
         (if a @ b @ c = [] then None
          else Some (Min (set (map total_return_pct (a @ b @ c))))),
       distribution_max =
         (if a @ b @ c = [] then None
          else Some (Max (set (map total_return_pct (a @ b @ c))))),
       seed_used = Some (seed config), num_trials = Some (num_simulations config) \<rparr>"
  unfolding aggregate_def Let_def case_prod_beta computePercentiles_fst computePercentiles_snd
    build_histogram_eq default_analysis_def
  by (simp add: sort_Nil_iff)

lemma generators_run:
  "0 \<le> n \<Longrightarrow>
   \<exists>a e1 b e2 c e3.
     runPositionShuffle uid n e = Inr (a, e1) \<and>
     runReturnPermutation uid n e1 = Inr (b, e2) \<and>
     runBootstrap uid n e2 = Inr (c, e3) \<and>
     length a \<le> nat n \<and> length b \<le> nat n \<and> length c \<le> nat n"
  by (simp add: runPositionShuffle_nonneg runReturnPermutation_nonneg runBootstrap_nonneg
      position_shuffle_seqs_length return_permutation_seqs_length bootstrap_seqs_length)

lemma runAnalysis_from_generators:
  "runPositionShuffle uid n e = Inr (a, e1) \<Longrightarrow>
   runReturnPermutation uid n e1 = Inr (b, e2) \<Longrightarrow>
   runBootstrap uid n e2 = Inr (c, e3) \<Longrightarrow>
   n = sint (num_simulations config div 3) \<Longrightarrow>
   runAnalysis uid config e = Inr (aggregate config a b c, e3)"
  by (simp add: runAnalysis_def runAnalysis_mem_def runPositionShuffle_def
      runReturnPermutation_def runBootstrap_def)

lemma runAnalysis_Inr:
  "\<exists>a e1 b e2 c e3.
     runPositionShuffle uid (int (unat (num_simulations config) div 3)) e = Inr (a, e1) \<and>
     runReturnPermutation uid (int (unat (num_simulations config) div 3)) e1 = Inr (b, e2) \<and>
     runBootstrap uid (int (unat (num_simulations config) div 3)) e2 = Inr (c, e3) \<and>
     length a \<le> unat (num_simulations config) div 3 \<and>
     length b \<le> unat (num_simulations config) div 3 \<and>
     length c \<le> unat (num_simulations config) div 3 \<and>
     runAnalysis uid config e = Inr (aggregate config a b c, e3)"
proof -
  let ?n = "int (unat (num_simulations config) div 3)"
  have "0 \<le> ?n" by simp
  from generators_run [OF this, of uid e]
  obtain a e1 b e2 c e3 where g:
    "runPositionShuffle uid ?n e = Inr (a, e1)"
    "runReturnPermutation uid ?n e1 = Inr (b, e2)"
    "runBootstrap uid ?n e2 = Inr (c, e3)"
    "length a \<le> nat ?n" "length b \<le> nat ?n" "length c \<le> nat ?n"
    by blast
  have "?n = sint (num_simulations config div 3)" by (simp only: sint_third)
  from runAnalysis_from_generators [OF g(1,2,3) this]
  have r: "runAnalysis uid config e = Inr (aggregate config a b c, e3)" .
  from g(4,5,6) have l:
    "length a \<le> unat (num_simulations config) div 3"
    "length b \<le> unat (num_simulations config) div 3"
    "length c \<le> unat (num_simulations config) div 3"
    by (simp_all only: nat_int)
  show ?thesis
  proof (intro exI conjI)
    show "runPositionShuffle uid ?n e = Inr (a, e1)" by (rule g(1))
    show "runReturnPermutation uid ?n e1 = Inr (b, e2)" by (rule g(2))
    show "runBootstrap uid ?n e2 = Inr (c, e3)" by (rule g(3))
    show "length a \<le> unat (num_simulations config) div 3" by (rule l(1))
    show "length b \<le> unat (num_simulations config) div 3" by (rule l(2))
    show "length c \<le> unat (num_simulations config) div 3" by (rule l(3))
    show "runAnalysis uid config e = Inr (aggregate config a b c, e3)" by (rule r)
  qed
qed

lemma percentile_index: "nat \<lfloor>real p * real k / 100\<rfloor> = (p * k) div 100"
proof -
  have "real p * real k / 100 = real (p * k) / real 100" by simp
  then have "\<lfloor>real p * real k / 100\<rfloor> = int ((p * k) div 100)"
    by (simp only: floor_divide_of_nat_eq)
  then show ?thesis by simp
qed

lemma get_percentile_index:
  "get_percentile vals (real p) =
     (if length vals = 0 then 0 else vals ! ((p * (length vals - 1)) div 100))"
  by (simp add: get_percentile_def percentile_index)

subsubsection \<open>Concrete runs\<close>

lemma replicate_20: "replicate 20 (0::int) = [0,0,0,0,0,0,0,0,0,0,0,0,0,0,0,0,0,0,0,0]"
  by (simp add: numeral_eq_Suc)

lemma example_shuffle:
  "runPositionShuffle tape_uid 1 example_engine =
     Inr ([\<lparr> final_value = 200000, total_return_pct = 100, max_drawdown_pct = 0,
             num_trades = 1, win_rate = 100, sharpe_ratio = 0 \<rparr>], example_engine)"
  by (simp add: example_engine_def gen_eval path_eval)

lemma example_permutation:
  "runReturnPermutation tape_uid 1 example_engine =
     Inr ([\<lparr> final_value = 100000, total_return_pct = 0, max_drawdown_pct = 0,
             num_trades = 0, win_rate = 50, sharpe_ratio = 0 \<rparr>], example_engine)"
  by (simp add: example_engine_def gen_eval path_eval)

lemma example_bootstrap:
  "runBootstrap tape_uid 1 example_engine =
     Inr ([\<lparr> final_value = 200000, total_return_pct = 100, max_drawdown_pct = 0,
             num_trades = 1, win_rate = 100, sharpe_ratio = 0 \<rparr>], example_engine)"
  by (simp add: example_engine_def gen_eval path_eval)

lemma example_analysis:
  "runAnalysis tape_uid (config_of 3 42) example_engine =
     Inr (aggregate (config_of 3 42)
            [\<lparr> final_value = 200000, total_return_pct = 100, max_drawdown_pct = 0,
               num_trades = 1, win_rate = 100, sharpe_ratio = 0 \<rparr>]
            [\<lparr> final_value = 100000, total_return_pct = 0, max_drawdown_pct = 0,
               num_trades = 0, win_rate = 50, sharpe_ratio = 0 \<rparr>]
            [\<lparr> final_value = 200000, total_return_pct = 100, max_drawdown_pct = 0,
               num_trades = 1, win_rate = 100, sharpe_ratio = 0 \<rparr>],
          example_engine)"
  by (rule runAnalysis_from_generators [OF example_shuffle example_permutation example_bootstrap])
     (simp add: config_of_def)

lemma example_histogram:
  "histogram_of [0, 100, 100] = [1,0,0,0,0,0,0,0,0,0,0,0,0,0,0,0,0,0,0,0]"
  by (simp add: histogram_of_def histogram_step_def static_cast_int_def replicate_20)

lemma example_sorted: "sort [100, 0, 100 :: real] = [0, 100, 100]"
  by simp

lemmas engine_eval = seeded_engine_def empty_engine_def MonteCarloEngine_ctor_def setTrades_def
  setReturns_def tape_seed_def

lemma mod2: "(42::nat) mod Suc (Suc 0) = 0" "(43::nat) mod Suc (Suc 0) = Suc 0"
  "Suc 42 mod Suc (Suc 0) = Suc 0"
  by (simp_all add: numeral_2_eq_2 [symmetric])

lemma seeded_first_shuffle:
  "runPositionShuffle tape_uid 1 seeded_engine =
     Inr ([trade_path_result [1, 0]], seeded_engine\<lparr> rng := [42, 42, 43, 43, 43] \<rparr>)"
  by (simp add: engine_eval gen_eval mod2)

lemma seeded_first_permutation:
  "runReturnPermutation tape_uid 1 (seeded_engine\<lparr> rng := g \<rparr>) =
     Inr ([], seeded_engine\<lparr> rng := g \<rparr>)"
  by (simp add: engine_eval gen_eval)

lemma seeded_first_bootstrap:
  "runBootstrap tape_uid 1 (seeded_engine\<lparr> rng := [42, 42, 43, 43, 43] \<rparr>) =
     Inr ([trade_path_result [1, 1]], seeded_engine\<lparr> rng := [43, 43, 43] \<rparr>)"
  by (simp add: engine_eval gen_eval mod2)

lemma seeded_second_shuffle:
  "runPositionShuffle tape_uid 1 (seeded_engine\<lparr> rng := [43, 43, 43] \<rparr>) =
     Inr ([trade_path_result [0, 1]], seeded_engine\<lparr> rng := [43, 43] \<rparr>)"
  by (simp add: engine_eval gen_eval mod2)

lemma seeded_second_bootstrap:
  "runBootstrap tape_uid 1 (seeded_engine\<lparr> rng := [43, 43] \<rparr>) =
     Inr ([trade_path_result [0, 0]], seeded_engine\<lparr> rng := [] \<rparr>)"
  by (simp add: engine_eval gen_eval mod2)

lemma trade_path_return:
  "total_return_pct (trade_path_result [1, 0]) = 100"
  "total_return_pct (trade_path_result [0, 1]) = 100"
  "total_return_pct (trade_path_result [1, 1]) = 300"
  "total_return_pct (trade_path_result [0, 0]) = 0"
  by (simp_all add: trade_path_result_def simulate_equity_def equity_step_def)

subsubsection \<open>Empty input\<close>

lemma empty_shuffle_mem:
  "reserve pf n = Inr () \<Longrightarrow> original_trades e = [] \<Longrightarrow>
   runPositionShuffle_mem pf uid n e = Inr ([], e)"
  by (simp add: runPositionShuffle_mem_def)

lemma empty_bootstrap_mem:
  "reserve pf n = Inr () \<Longrightarrow> original_trades e = [] \<Longrightarrow>
   runBootstrap_mem pf uid n e = Inr ([], e)"
  by (simp add: runBootstrap_mem_def)

lemma empty_permutation_mem:
  "reserve pf n = Inr () \<Longrightarrow> daily_returns e = [] \<Longrightarrow>
   runReturnPermutation_mem pf uid n e = Inr ([], e)"
  by (simp add: runReturnPermutation_mem_def)

lemma reserve_fails_mem:
  "reserve pf n = Inl err \<Longrightarrow>
   runPositionShuffle_mem pf uid n e = Inl err \<and>
   runReturnPermutation_mem pf uid n e = Inl err \<and>
   runBootstrap_mem pf uid n e = Inl err"
  by (simp add: runPositionShuffle_mem_def runReturnPermutation_mem_def runBootstrap_mem_def)

lemma empty_analysis_mem:
  assumes "original_trades e = []" and "daily_returns e = []"
    and "reserve (pfs 0) (sint (num_simulations config div 3)) = Inr ()"
    and "reserve (pfs 1) (sint (num_simulations config div 3)) = Inr ()"
    and "reserve (pfs 2) (sint (num_simulations config div 3)) = Inr ()"
  shows "runAnalysis_mem pfs uid config e = Inr (aggregate config [] [] [], e)"
  by (simp only: runAnalysis_mem_def Let_def sum.case prod.case
      empty_shuffle_mem [OF assms(3) assms(1)] empty_permutation_mem [OF assms(4) assms(2)]
      empty_bootstrap_mem [OF assms(5) assms(1)])

subsubsection \<open>The sum of the buckets\<close>

lemma sum_list_bump:
  "i < length h \<Longrightarrow> sum_list (h[i := h ! i + 1]) = sum_list h + (1::int)"
proof (induction h arbitrary: i)
  case Nil
  then show ?case by simp
next
  case (Cons x h)
  then show ?case by (cases i) simp_all
qed

lemma histogram_step_length: "length (histogram_step dmin bw h r) = length h"
  by (simp add: histogram_step_def Let_def)

lemma histogram_step_alt:
  "histogram_step dmin bw h r =
     (if in_bucket dmin bw r
      then h[nat (static_cast_int ((r - dmin) / bw)) :=
               h ! nat (static_cast_int ((r - dmin) / bw)) + 1]
      else h)"
  by (simp add: histogram_step_def in_bucket_def Let_def)

lemma histogram_step_sum:
  assumes "length h = 20"
  shows "sum_list (histogram_step dmin bw h r) =
           sum_list h + (if in_bucket dmin bw r then 1 else 0)"
proof (cases "in_bucket dmin bw r")
  case True
  then have "nat (static_cast_int ((r - dmin) / bw)) < 20"
    unfolding in_bucket_def by linarith
  with assms have "nat (static_cast_int ((r - dmin) / bw)) < length h" by simp
  from sum_list_bump [OF this] True show ?thesis
    by (simp only: histogram_step_alt if_True)
next
  case False
  then show ?thesis
    by (simp add: histogram_step_alt)
qed

lemma foldl_histogram_sum:
  "length h = 20 \<Longrightarrow>
   sum_list (foldl (histogram_step dmin bw) h rs) =
     sum_list h + int (length (filter (in_bucket dmin bw) rs))"
proof (induction rs arbitrary: h)
  case Nil
  then show ?case by simp
next
  case (Cons r rs)
  from Cons.prems have "length (histogram_step dmin bw h r) = 20"
    by (simp add: histogram_step_length)
  from Cons.IH [OF this] Cons.prems show ?case
    by (simp add: histogram_step_sum)
qed

lemma in_bucket_iff:
  assumes "dmin \<le> r" and "dmin < dmax"
  shows "in_bucket dmin ((dmax - dmin) / 20) r = (r < dmax)"
proof -
  let ?x = "(r - dmin) / ((dmax - dmin) / 20)"
  from assms have x: "0 \<le> ?x" by simp
  then have c: "static_cast_int ?x = \<lfloor>?x\<rfloor>" by (simp add: static_cast_int_def)
  from x have f: "0 \<le> \<lfloor>?x\<rfloor>" by simp
  have "(\<lfloor>?x\<rfloor> < 20) = (?x < 20)" by (simp add: floor_less_iff)
  also from assms(2) have "\<dots> = (r < dmax)" by (simp add: field_simps)
  finally show ?thesis using f by (simp only: in_bucket_def c) simp
qed

lemma histogram_sum:
  assumes "rets \<noteq> []" and "Min (set rets) < Max (set rets)"
  shows "sum_list (histogram_of rets) = int (length (filter (\<lambda>r. r < Max (set rets)) rets))"
proof -
  let ?lo = "Min (set rets)" and ?hi = "Max (set rets)"
  have "filter (in_bucket ?lo ((?hi - ?lo) / 20)) rets = filter (\<lambda>r. r < ?hi) rets"
  proof (rule filter_cong [OF refl])
    fix r
    assume "r \<in> set rets"
    then have "?lo \<le> r" by simp
    from in_bucket_iff [OF this assms(2)]
    show "in_bucket ?lo ((?hi - ?lo) / 20) r = (r < ?hi)" .
  qed
  with assms show ?thesis
    by (simp add: histogram_of_def foldl_histogram_sum sum_list_replicate)
qed

lemma length_filter_sort: "length (filter P (sort xs)) = length (filter P xs)"
proof -
  have "mset (filter P (sort xs)) = mset (filter P xs)" by simp
  then have "size (mset (filter P (sort xs))) = size (mset (filter P xs))" by (rule arg_cong)
  then show ?thesis by (simp only: size_mset)
qed

subsection \<open>C8: the p-value\<close>

text \<open>
  Claim C8. For every observed value and every list of simulated values,
  \<open>computePValue\<close> is the number of simulated values that are at least the
  observed one (ties count), divided by the number of simulated values, and it is
  \<open>1\<close> when there is no simulated value.
\<close>

theorem computePValue_spec:
  "computePValue observed simulated =
     (if simulated = [] then 1
      else real (length (filter (\<lambda>s. s \<ge> observed) simulated)) / real (length simulated))"
  by (simp add: computePValue_def foldl_count_ge)

theorem computePValue_spec_witness:
  "computePValue 2 [1, 2, 3, 2] = 3 / 4 \<and> computePValue 2 [] = 1"
  using computePValue_spec [of 2 "[1, 2, 3, 2]"] computePValue_spec [of 2 "[]"]
  by simp

subsection \<open>C9: the Sharpe ratio\<close>






subsection \<open>C1: the trade count of a path\<close>

text \<open>
  Claim C1, as amended. Every \<open>SimulationResult\<close> that \<open>runPositionShuffle\<close> or
  \<open>runBootstrap\<close> produces has a \<open>num_trades\<close> equal to the length of the
  outcome-sequence that produced it. Every \<open>SimulationResult\<close> that
  \<open>runReturnPermutation\<close> produces has a \<open>num_trades\<close> equal to the length of its
  permuted sequence divided by \<open>20\<close>, rounded down. On a platform that grants every
  reservation, each generator fails exactly for a negative request, and then
  produces no result.
\<close>

theorem num_trades_of_generators:
  "(case runPositionShuffle uid n e of
      Inl err \<Rightarrow> n < 0
    | Inr (results, e1) \<Rightarrow>
        0 \<le> n \<and>
        list_all2 (\<lambda>sim s. num_trades sim = int (length s))
          results (position_shuffle_seqs uid n e)) \<and>
   (case runBootstrap uid n e of
      Inl err \<Rightarrow> n < 0
    | Inr (results, e1) \<Rightarrow>
        0 \<le> n \<and>
        list_all2 (\<lambda>sim s. num_trades sim = int (length s))
          results (bootstrap_seqs uid n e)) \<and>
   (case runReturnPermutation uid n e of
      Inl err \<Rightarrow> n < 0
    | Inr (results, e1) \<Rightarrow>
        0 \<le> n \<and>
        list_all2 (\<lambda>sim s. num_trades sim = int (length s) div 20)
          results (return_permutation_seqs uid n e))"
proof (cases "n < 0")
  case True
  then show ?thesis
    by (simp add: runPositionShuffle_neg runBootstrap_neg runReturnPermutation_neg)
next
  case False
  then have n: "0 \<le> n" by simp
  have p: "list_all2 (\<lambda>sim s. num_trades sim = int (length s) div 20)
             (map (return_path_result (int (length (daily_returns e))))
                (return_permutation_seqs uid n e))
             (return_permutation_seqs uid n e)"
    by (simp add: list_all2_map_same return_path_result_num_trades
        return_permutation_seqs_elem_length)
  from n p show ?thesis
    by (simp add: runPositionShuffle_nonneg runBootstrap_nonneg runReturnPermutation_nonneg
        list_all2_map_same trade_path_result_num_trades)
qed

text \<open>
  Claim C1 as stated fails for \<open>runReturnPermutation\<close>: one daily return, one
  requested path. The permuted sequence has length \<open>1\<close>, the result's
  \<open>num_trades\<close> is \<open>0\<close>.
\<close>

theorem return_permutation_num_trades_counterexample:
  "runReturnPermutation tape_uid 1
     \<lparr> rng = [0], original_trades = [], daily_returns = [1 / 100], prices = [] \<rparr> =
   Inr ([\<lparr> final_value = 101000, total_return_pct = 1, max_drawdown_pct = 0,
           num_trades = 0, win_rate = 50, sharpe_ratio = 0 \<rparr>],
        \<lparr> rng = [0], original_trades = [], daily_returns = [1 / 100], prices = [] \<rparr>) \<and>
   return_permutation_seqs tape_uid 1
     \<lparr> rng = [0], original_trades = [], daily_returns = [1 / 100], prices = [] \<rparr> =
   [[1 / 100]]"
  by (simp add: gen_eval path_eval)

theorem num_trades_of_generators_witness:
  "(\<exists>results e1.
      runPositionShuffle tape_uid 2
        \<lparr> rng = [1, 0], original_trades = [trade_of_pnl 10, trade_of_pnl (- 5)],
          daily_returns = [1 / 100], prices = [] \<rparr> = Inr (results, e1) \<and>
      map num_trades results = [2, 2]) \<and>
   position_shuffle_seqs tape_uid 2
     \<lparr> rng = [1, 0], original_trades = [trade_of_pnl 10, trade_of_pnl (- 5)],
       daily_returns = [1 / 100], prices = [] \<rparr> =
     [[- (1 / 20), 1 / 10], [1 / 10, - (1 / 20)]]"
  using num_trades_of_generators [where uid = tape_uid and n = 2 and
      e = "\<lparr> rng = [1, 0], original_trades = [trade_of_pnl 10, trade_of_pnl (- 5)],
         daily_returns = [1 / 100], prices = [] \<rparr>"]
  by (simp add: gen_eval path_eval simulate_n_2)

subsection \<open>C6: the paths of the position shuffle\<close>



subsection \<open>C5: the configuration fields that are not read\<close>

text \<open>
  Claim C5. For every engine state and every two configurations with the same
  \<open>num_simulations\<close>, whatever their other fields, \<open>runAnalysis\<close> returns the same
  report but for \<open>seed_used\<close>, and leaves the engine in the same state: the
  simulations, the percentiles, the confidence interval and the histogram are the
  same. All three generators run, with a third of \<open>num_simulations\<close> each, and
  their results are concatenated. \<open>seed_used\<close> is the configuration's seed and
  \<open>num_trials\<close> its \<open>num_simulations\<close>, while the number of generated paths is at
  most three times the third of \<open>num_simulations\<close>.
\<close>

theorem unused_config_fields:
  assumes "num_simulations c1 = num_simulations c2"
  shows "\<exists>r1 r2 e' a e1 b e2 c.
     runAnalysis uid c1 e = Inr (r1, e') \<and>
     runAnalysis uid c2 e = Inr (r2, e') \<and>
     r2 = r1\<lparr> seed_used := Some (seed c2) \<rparr> \<and>
     seed_used r1 = Some (seed c1) \<and>
     num_trials r1 = Some (num_simulations c1) \<and>
     runPositionShuffle uid (int (unat (num_simulations c1) div 3)) e = Inr (a, e1) \<and>
     runReturnPermutation uid (int (unat (num_simulations c1) div 3)) e1 = Inr (b, e2) \<and>
     runBootstrap uid (int (unat (num_simulations c1) div 3)) e2 = Inr (c, e') \<and>
     simulations r1 = a @ b @ c \<and>
     length (simulations r1) \<le> 3 * (unat (num_simulations c1) div 3)"
proof -
  from runAnalysis_Inr [of uid c1 e]
  obtain a e1 b e2 c e3 where g:
    "runPositionShuffle uid (int (unat (num_simulations c1) div 3)) e = Inr (a, e1)"
    "runReturnPermutation uid (int (unat (num_simulations c1) div 3)) e1 = Inr (b, e2)"
    "runBootstrap uid (int (unat (num_simulations c1) div 3)) e2 = Inr (c, e3)"
    "length a \<le> unat (num_simulations c1) div 3"
    "length b \<le> unat (num_simulations c1) div 3"
    "length c \<le> unat (num_simulations c1) div 3"
    "runAnalysis uid c1 e = Inr (aggregate c1 a b c, e3)"
    by blast
  have "int (unat (num_simulations c1) div 3) = sint (num_simulations c2 div 3)"
    by (simp only: sint_third assms)
  from runAnalysis_from_generators [OF g(1,2,3) this]
  have r2: "runAnalysis uid c2 e = Inr (aggregate c2 a b c, e3)" .
  have u: "aggregate c2 a b c = (aggregate c1 a b c)\<lparr> seed_used := Some (seed c2) \<rparr>"
    by (simp add: aggregate_explicit assms)
  have s: "simulations (aggregate c1 a b c) = a @ b @ c"
    by (simp add: aggregate_explicit)
  have f: "seed_used (aggregate c1 a b c) = Some (seed c1)"
    "num_trials (aggregate c1 a b c) = Some (num_simulations c1)"
    by (simp_all add: aggregate_explicit)
  from g(4,5,6) have l: "length (a @ b @ c) \<le> 3 * (unat (num_simulations c1) div 3)"
    by simp
  show ?thesis
  proof (intro exI conjI)
    show "runAnalysis uid c1 e = Inr (aggregate c1 a b c, e3)" by (rule g(7))
    show "runAnalysis uid c2 e = Inr (aggregate c2 a b c, e3)" by (rule r2)
    show "aggregate c2 a b c = (aggregate c1 a b c)\<lparr> seed_used := Some (seed c2) \<rparr>"
      by (rule u)
    show "seed_used (aggregate c1 a b c) = Some (seed c1)" by (rule f(1))
    show "num_trials (aggregate c1 a b c) = Some (num_simulations c1)" by (rule f(2))
    show "runPositionShuffle uid (int (unat (num_simulations c1) div 3)) e = Inr (a, e1)"
      by (rule g(1))
    show "runReturnPermutation uid (int (unat (num_simulations c1) div 3)) e1 = Inr (b, e2)"
      by (rule g(2))
    show "runBootstrap uid (int (unat (num_simulations c1) div 3)) e2 = Inr (c, e3)"
      by (rule g(3))
    show "simulations (aggregate c1 a b c) = a @ b @ c" by (rule s)
    from l s show "length (simulations (aggregate c1 a b c)) \<le> 3 * (unat (num_simulations c1) div 3)"
      by (simp only:)
  qed
qed

theorem unused_config_fields_witness:
  "num_simulations (config_of 3 42) = num_simulations config_other \<and>
   (\<exists>r1 r2 e'.
      runAnalysis tape_uid (config_of 3 42)
        \<lparr> rng = [1, 0, 1], original_trades = [trade_of_pnl 100, trade_of_pnl 0],
          daily_returns = [0], prices = [] \<rparr> = Inr (r1, e') \<and>
      runAnalysis tape_uid config_other
        \<lparr> rng = [1, 0, 1], original_trades = [trade_of_pnl 100, trade_of_pnl 0],
          daily_returns = [0], prices = [] \<rparr> = Inr (r2, e') \<and>
      r2 = r1\<lparr> seed_used := Some 7 \<rparr> \<and>
      seed_used r1 = Some 42 \<and> num_trials r1 = Some 3 \<and>
      length (simulations r1) \<le> 3)"
proof -
  let ?e = "\<lparr> rng = [1, 0, 1], original_trades = [trade_of_pnl 100, trade_of_pnl 0],
             daily_returns = [0], prices = [] \<rparr> :: nat list MonteCarloEngine"
  have h: "num_simulations (config_of 3 42) = num_simulations config_other"
    by (simp add: config_of_def config_other_def)
  have s: "seed config_other = 7" "seed (config_of 3 42) = 42"
    "num_simulations (config_of 3 42) = 3"
    by (simp_all add: config_of_def config_other_def)
  have u: "3 * (unat (3::32 word) div 3) = 3" by simp
  from unused_config_fields [OF h, of tape_uid ?e]
  obtain r1 r2 e' where r:
    "runAnalysis tape_uid (config_of 3 42) ?e = Inr (r1, e')"
    "runAnalysis tape_uid config_other ?e = Inr (r2, e')"
    "r2 = r1\<lparr> seed_used := Some (seed config_other) \<rparr>"
    "seed_used r1 = Some (seed (config_of 3 42))"
    "num_trials r1 = Some (num_simulations (config_of 3 42))"
    "length (simulations r1) \<le> 3 * (unat (num_simulations (config_of 3 42)) div 3)"
    by blast
  from r(3,4,5,6) have r':
    "r2 = r1\<lparr> seed_used := Some 7 \<rparr>" "seed_used r1 = Some 42"
    "num_trials r1 = Some 3" "length (simulations r1) \<le> 3"
    by (simp_all only: s u)
  show ?thesis
  proof (intro conjI exI)
    show "num_simulations (config_of 3 42) = num_simulations config_other" by (rule h)
    show "runAnalysis tape_uid (config_of 3 42) ?e = Inr (r1, e')" by (rule r(1))
    show "runAnalysis tape_uid config_other ?e = Inr (r2, e')" by (rule r(2))
    show "r2 = r1\<lparr> seed_used := Some 7 \<rparr>" by (rule r'(1))
    show "seed_used r1 = Some 42" by (rule r'(2))
    show "num_trials r1 = Some 3" by (rule r'(3))
    show "length (simulations r1) \<le> 3" by (rule r'(4))
  qed
qed

subsection \<open>C7: percentiles and confidence interval\<close>

text \<open>
  Claim C7. On a platform that grants every reservation, \<open>runAnalysis\<close> always
  returns a report. With the pooled
  \<open>total_return_pct\<close> values sorted ascending, each percentile \<open>p\<close> of
  \<open>5, 25, 50, 75, 95\<close> is the element at index \<open>p * (count - 1) div 100\<close>; all five
  are \<open>0\<close> for an empty pool; \<open>ci_lower_95\<close> and \<open>ci_upper_95\<close> are
  \<open>percentile_5\<close> and \<open>percentile_95\<close>.
\<close>

theorem percentiles_spec:
  "\<exists>r e'.
     runAnalysis uid config e = Inr (r, e') \<and>
     (let vals = sort (map total_return_pct (simulations r));
          count = length vals;
          pick = (\<lambda>p. if count = 0 then 0 else vals ! ((p * (count - 1)) div 100))
      in percentile_5 r = Some (pick 5) \<and>
         percentile_25 r = Some (pick 25) \<and>
         percentile_50 r = Some (pick 50) \<and>
         percentile_75 r = Some (pick 75) \<and>
         percentile_95 r = Some (pick 95) \<and>
         ci_lower_95 r = percentile_5 r \<and>
         ci_upper_95 r = percentile_95 r)"
proof -
  from runAnalysis_Inr [of uid config e]
  obtain a b c e3 where r: "runAnalysis uid config e = Inr (aggregate config a b c, e3)"
    by blast
  have n: "(5::real) = real 5" "(25::real) = real 25" "(50::real) = real 50"
    "(75::real) = real 75" "(95::real) = real 95"
    by simp_all
  have "let vals = sort (map total_return_pct (simulations (aggregate config a b c)));
          count = length vals;
          pick = (\<lambda>p. if count = 0 then 0 else vals ! ((p * (count - 1)) div 100))
      in percentile_5 (aggregate config a b c) = Some (pick 5) \<and>
         percentile_25 (aggregate config a b c) = Some (pick 25) \<and>
         percentile_50 (aggregate config a b c) = Some (pick 50) \<and>
         percentile_75 (aggregate config a b c) = Some (pick 75) \<and>
         percentile_95 (aggregate config a b c) = Some (pick 95) \<and>
         ci_lower_95 (aggregate config a b c) = percentile_5 (aggregate config a b c) \<and>
         ci_upper_95 (aggregate config a b c) = percentile_95 (aggregate config a b c)"
    unfolding aggregate_explicit Let_def
    by (simp add: n get_percentile_index del: of_nat_numeral)
  with r show ?thesis by blast
qed

theorem percentiles_spec_witness:
  "\<exists>r e'.
     runAnalysis tape_uid (config_of 3 42) example_engine = Inr (r, e') \<and>
     map total_return_pct (simulations r) = [100, 0, 100] \<and>
     percentile_5 r = Some 0 \<and> percentile_25 r = Some 0 \<and> percentile_50 r = Some 100 \<and>
     percentile_75 r = Some 100 \<and> percentile_95 r = Some 100 \<and>
     ci_lower_95 r = Some 0 \<and> ci_upper_95 r = Some 100"
proof -
  from percentiles_spec [of tape_uid "config_of 3 42" example_engine]
  obtain r e' where r: "runAnalysis tape_uid (config_of 3 42) example_engine = Inr (r, e')"
    and p: "let vals = sort (map total_return_pct (simulations r));
          count = length vals;
          pick = (\<lambda>p. if count = 0 then 0 else vals ! ((p * (count - 1)) div 100))
      in percentile_5 r = Some (pick 5) \<and>
         percentile_25 r = Some (pick 25) \<and>
         percentile_50 r = Some (pick 50) \<and>
         percentile_75 r = Some (pick 75) \<and>
         percentile_95 r = Some (pick 95) \<and>
         ci_lower_95 r = percentile_5 r \<and>
         ci_upper_95 r = percentile_95 r"
    by blast
  from r have s: "map total_return_pct (simulations r) = [100, 0, 100]"
    by (auto simp: example_analysis aggregate_explicit)
  from p have "percentile_5 r = Some 0 \<and> percentile_25 r = Some 0 \<and>
     percentile_50 r = Some 100 \<and> percentile_75 r = Some 100 \<and> percentile_95 r = Some 100 \<and>
     ci_lower_95 r = Some 0 \<and> ci_upper_95 r = Some 100"
    unfolding s example_sorted Let_def by simp
  with r s show ?thesis
    by (intro exI [of _ r] exI [of _ e']) simp
qed

subsection \<open>C3: the original strategy's metrics and the p-values\<close>

text \<open>
  Claim C3 says that the report holds the original strategy's return, Sharpe ratio
  and maximal drawdown, computed from the input, and the two p-values. The code
  does not do it: for every engine state and every configuration, \<open>runAnalysis\<close>
  returns a report in which \<open>original_return\<close>, \<open>original_sharpe\<close>,
  \<open>original_max_dd\<close>, \<open>p_value_strategy_vs_random\<close> and
  \<open>p_value_strategy_vs_bootstrap\<close> were never assigned.
\<close>

theorem original_metrics_never_assigned:
  "\<exists>r e'.
     runAnalysis uid config e = Inr (r, e') \<and>
     original_return r = None \<and> original_sharpe r = None \<and> original_max_dd r = None \<and>
     p_value_strategy_vs_random r = None \<and> p_value_strategy_vs_bootstrap r = None"
proof -
  from runAnalysis_Inr [of uid config e]
  obtain a b c e3 where r: "runAnalysis uid config e = Inr (aggregate config a b c, e3)"
    by blast
  have "original_return (aggregate config a b c) = None \<and>
        original_sharpe (aggregate config a b c) = None \<and>
        original_max_dd (aggregate config a b c) = None \<and>
        p_value_strategy_vs_random (aggregate config a b c) = None \<and>
        p_value_strategy_vs_bootstrap (aggregate config a b c) = None"
    by (simp add: aggregate_explicit)
  with r show ?thesis by blast
qed

subsection \<open>C2: the histogram\<close>

text \<open>
  Claim C2 says that the bucket counts sum to the number of pooled paths when
  \<open>distribution_max > distribution_min\<close>. The code does not do it: at the example
  engine, three paths are pooled, with returns \<open>100\<close>, \<open>0\<close> and \<open>100\<close>; the bounds
  are \<open>0\<close> and \<open>100\<close>; the two paths at the maximum get the bin index \<open>20\<close>,
  which the test \<open>bin < 20\<close> rejects, and the bucket counts sum to \<open>1\<close>.
\<close>

theorem histogram_drops_maximum:
  "\<exists>r e'.
     runAnalysis tape_uid (config_of 3 42) example_engine = Inr (r, e') \<and>
     map total_return_pct (simulations r) = [100, 0, 100] \<and>
     distribution_min r = Some 0 \<and> distribution_max r = Some 100 \<and>
     return_distribution r = [1,0,0,0,0,0,0,0,0,0,0,0,0,0,0,0,0,0,0,0] \<and>
     sum_list (return_distribution r) = 1 \<and>
     length (simulations r) = 3"
  unfolding example_analysis aggregate_explicit
  by (simp add: example_histogram)

subsection \<open>C4: reproducibility\<close>

text \<open>
  Claim C4, as amended. Two engines constructed with the same explicit seed (a seed
  other than \<open>0\<close>) and given the same trades and returns return, for the same
  configuration, the same report, and end in the same state, whatever
  \<^verbatim>\<open>std::random_device\<close> would have returned. In the report of the model, a field
  that \<open>runAnalysis\<close> never assigns is \<open>None\<close>: the two reports agree on the
  fields that were assigned, and on which fields were.
\<close>

theorem same_seed_same_report:
  assumes "seed0 \<noteq> 0"
  shows "\<exists>r e'.
     runAnalysis uid config
       (setReturns rets (setTrades trades (MonteCarloEngine_ctor seed_rng device1 seed0))) =
       Inr (r, e') \<and>
     runAnalysis uid config
       (setReturns rets (setTrades trades (MonteCarloEngine_ctor seed_rng device2 seed0))) =
       Inr (r, e')"
proof -
  let ?e1 = "setReturns rets (setTrades trades (MonteCarloEngine_ctor seed_rng device1 seed0))"
  let ?e2 = "setReturns rets (setTrades trades (MonteCarloEngine_ctor seed_rng device2 seed0))"
  from assms have e: "?e2 = ?e1" by (simp add: MonteCarloEngine_ctor_def)
  from runAnalysis_Inr [of uid config ?e1]
  obtain a b c e3 where r: "runAnalysis uid config ?e1 = Inr (aggregate config a b c, e3)"
    by blast
  show ?thesis
  proof (intro exI conjI)
    show "runAnalysis uid config ?e1 = Inr (aggregate config a b c, e3)" by (rule r)
    show "runAnalysis uid config ?e2 = Inr (aggregate config a b c, e3)"
      unfolding e by (rule r)
  qed
qed

theorem same_seed_same_report_witness:
  "(42::32 word) \<noteq> 0 \<and>
   (\<exists>r e'.
      runAnalysis tape_uid (config_of 3 42)
        (setReturns [0] (setTrades [trade_of_pnl 100, trade_of_pnl 0]
           (MonteCarloEngine_ctor tape_seed 1 42))) = Inr (r, e') \<and>
      runAnalysis tape_uid (config_of 3 42)
        (setReturns [0] (setTrades [trade_of_pnl 100, trade_of_pnl 0]
           (MonteCarloEngine_ctor tape_seed 2 42))) = Inr (r, e'))"
proof -
  have h: "(42::32 word) \<noteq> 0" by simp
  from same_seed_same_report [OF h] h show ?thesis by blast
qed

text \<open>
  Claim C4 as stated fails for two invocations on one engine: the generator is
  seeded by the constructor only, and the second invocation continues the random
  stream where the first one left it. Here the engine was built with the seed
  \<open>42\<close>, the stored input is the same for both invocations and so is the
  configuration; the bootstrap path has a return of \<open>300\<close> in the first report and
  of \<open>0\<close> in the second.
\<close>

theorem second_run_differs_counterexample:
  "\<exists>r1 e1 r2 e2.
     runAnalysis tape_uid (config_of 3 42) seeded_engine = Inr (r1, e1) \<and>
     runAnalysis tape_uid (config_of 3 42) e1 = Inr (r2, e2) \<and>
     original_trades e1 = original_trades seeded_engine \<and>
     daily_returns e1 = daily_returns seeded_engine \<and>
     map total_return_pct (simulations r1) = [100, 300] \<and>
     map total_return_pct (simulations r2) = [100, 0]"
proof -
  have n: "1 = sint (num_simulations (config_of 3 42) div 3)"
    by (simp add: config_of_def)
  have r1: "runAnalysis tape_uid (config_of 3 42) seeded_engine =
      Inr (aggregate (config_of 3 42) [trade_path_result [1, 0]] [] [trade_path_result [1, 1]],
           seeded_engine\<lparr> rng := [43, 43, 43] \<rparr>)"
    by (rule runAnalysis_from_generators
        [OF seeded_first_shuffle seeded_first_permutation seeded_first_bootstrap n])
  have r2: "runAnalysis tape_uid (config_of 3 42) (seeded_engine\<lparr> rng := [43, 43, 43] \<rparr>) =
      Inr (aggregate (config_of 3 42) [trade_path_result [0, 1]] [] [trade_path_result [0, 0]],
           seeded_engine\<lparr> rng := [] \<rparr>)"
    by (rule runAnalysis_from_generators
        [OF seeded_second_shuffle seeded_first_permutation seeded_second_bootstrap n])
  show ?thesis
    unfolding r1
    by (simp add: r2 aggregate_explicit trade_path_return)
qed

subsection \<open>C10: empty input\<close>

text \<open>
  Claim C10, as amended. On every platform and for every request \<open>N\<close> whose
  reservation succeeds, \<open>runPositionShuffle\<close> and \<open>runBootstrap\<close> return zero paths
  when the stored Trade list is empty, and \<open>runReturnPermutation\<close> returns zero
  paths when the stored return series is empty; none of them touches the engine.
  With both inputs empty and the three reservations of a third of
  \<open>num_simulations\<close> granted, \<open>runAnalysis\<close> raises no error and returns a report
  with no simulation, the five percentiles and the two confidence bounds \<open>0\<close> and
  twenty empty buckets; \<open>seed_used\<close> and \<open>num_trials\<close> repeat the configuration.
\<close>

theorem empty_input_degenerate:
  "(reserve pf n = Inr () \<and> original_trades e = [] \<longrightarrow>
      runPositionShuffle_mem pf uid n e = Inr ([], e) \<and>
      runBootstrap_mem pf uid n e = Inr ([], e)) \<and>
   (reserve pf n = Inr () \<and> daily_returns e = [] \<longrightarrow>
      runReturnPermutation_mem pf uid n e = Inr ([], e)) \<and>
   (original_trades e = [] \<and> daily_returns e = [] \<and>
    reserve (pfs 0) (sint (num_simulations config div 3)) = Inr () \<and>
    reserve (pfs 1) (sint (num_simulations config div 3)) = Inr () \<and>
    reserve (pfs 2) (sint (num_simulations config div 3)) = Inr () \<longrightarrow>
      (\<exists>r. runAnalysis_mem pfs uid config e = Inr (r, e) \<and>
           simulations r = [] \<and>
           percentile_5 r = Some 0 \<and> percentile_25 r = Some 0 \<and> percentile_50 r = Some 0 \<and>
           percentile_75 r = Some 0 \<and> percentile_95 r = Some 0 \<and>
           ci_lower_95 r = Some 0 \<and> ci_upper_95 r = Some 0 \<and>
           return_distribution r = replicate 20 0 \<and>
           seed_used r = Some (seed config) \<and>
           num_trials r = Some (num_simulations config)))"
proof (intro conjI impI)
  assume "reserve pf n = Inr () \<and> original_trades e = []"
  then show "runPositionShuffle_mem pf uid n e = Inr ([], e)" by (simp add: empty_shuffle_mem)
next
  assume "reserve pf n = Inr () \<and> original_trades e = []"
  then show "runBootstrap_mem pf uid n e = Inr ([], e)" by (simp add: empty_bootstrap_mem)
next
  assume "reserve pf n = Inr () \<and> daily_returns e = []"
  then show "runReturnPermutation_mem pf uid n e = Inr ([], e)"
    by (simp add: empty_permutation_mem)
next
  assume a: "original_trades e = [] \<and> daily_returns e = [] \<and>
    reserve (pfs 0) (sint (num_simulations config div 3)) = Inr () \<and>
    reserve (pfs 1) (sint (num_simulations config div 3)) = Inr () \<and>
    reserve (pfs 2) (sint (num_simulations config div 3)) = Inr ()"
  then have r: "runAnalysis_mem pfs uid config e = Inr (aggregate config [] [] [], e)"
    by (intro empty_analysis_mem) simp_all
  show "\<exists>r. runAnalysis_mem pfs uid config e = Inr (r, e) \<and>
           simulations r = [] \<and>
           percentile_5 r = Some 0 \<and> percentile_25 r = Some 0 \<and> percentile_50 r = Some 0 \<and>
           percentile_75 r = Some 0 \<and> percentile_95 r = Some 0 \<and>
           ci_lower_95 r = Some 0 \<and> ci_upper_95 r = Some 0 \<and>
           return_distribution r = replicate 20 0 \<and>
           seed_used r = Some (seed config) \<and>
           num_trials r = Some (num_simulations config)"
    unfolding r
    by (simp add: aggregate_explicit get_percentile_def histogram_of_def)
qed

theorem empty_input_degenerate_witness:
  "reserve limited 5 = Inr () \<and>
   reserve limited (sint (num_simulations (config_of 3 42) div 3)) = Inr () \<and>
   runPositionShuffle_mem limited tape_uid 5 empty_engine = Inr ([], empty_engine) \<and>
   runBootstrap_mem limited tape_uid 5 empty_engine = Inr ([], empty_engine) \<and>
   runReturnPermutation_mem limited tape_uid 5 empty_engine = Inr ([], empty_engine) \<and>
   (\<exists>r. runAnalysis_mem (\<lambda>k. limited) tape_uid (config_of 3 42) empty_engine =
          Inr (r, empty_engine) \<and>
        simulations r = [] \<and>
        percentile_5 r = Some 0 \<and> percentile_25 r = Some 0 \<and> percentile_50 r = Some 0 \<and>
        percentile_75 r = Some 0 \<and> percentile_95 r = Some 0 \<and>
        ci_lower_95 r = Some 0 \<and> ci_upper_95 r = Some 0 \<and>
        return_distribution r = replicate 20 0 \<and>
        seed_used r = Some 42 \<and> num_trials r = Some 3)"
proof -
  have e: "original_trades empty_engine = []" "daily_returns empty_engine = []"
    by (simp_all add: empty_engine_def MonteCarloEngine_ctor_def)
  have c: "seed (config_of 3 42) = 42" "num_simulations (config_of 3 42) = 3"
    by (simp_all add: config_of_def)
  have r5: "reserve limited 5 = Inr ()"
    by (simp add: reserve_def limited_def)
  have r1: "reserve limited 1 = Inr ()"
    by (simp add: reserve_def limited_def)
  from empty_input_degenerate [where n = 5 and e = empty_engine and uid = tape_uid
      and config = "config_of 3 42" and pf = limited and pfs = "\<lambda>k. limited"]
  show ?thesis
    unfolding c by (simp add: e r5 r1)
qed

text \<open>
  Claim C10 as stated fails in two ways, here on a platform that cannot hold more
  than \<open>10^9\<close> results in one vector. With empty input, a request that cannot be
  reserved does not return zero paths: each generator reserves room for the request
  before it tests for empty input, so a request of \<open>-1\<close> paths fails with a length
  error and a request of \<open>1431655765\<close> paths fails for lack of memory, and so does
  \<open>runAnalysis\<close> for \<open>num_simulations = 4294967295\<close>. And the report for empty input
  is not all zero: \<open>num_trials\<close> is the requested count, and the bounds of the
  histogram were never assigned.
\<close>

theorem empty_input_counterexample:
  "runPositionShuffle_mem limited tape_uid (- 1) empty_engine = Inl LengthError \<and>
   runReturnPermutation_mem limited tape_uid (- 1) empty_engine = Inl LengthError \<and>
   runBootstrap_mem limited tape_uid (- 1) empty_engine = Inl LengthError \<and>
   runPositionShuffle_mem limited tape_uid 1431655765 empty_engine = Inl BadAlloc \<and>
   runReturnPermutation_mem limited tape_uid 1431655765 empty_engine = Inl BadAlloc \<and>
   runBootstrap_mem limited tape_uid 1431655765 empty_engine = Inl BadAlloc \<and>
   runAnalysis_mem (\<lambda>k. limited) tape_uid (config_of 4294967295 42) empty_engine =
     Inl BadAlloc \<and>
   (\<exists>r e'. runAnalysis_mem (\<lambda>k. limited) tape_uid (config_of 3 42) empty_engine =
        Inr (r, e') \<and>
      num_trials r = Some 3 \<and> distribution_min r = None \<and> distribution_max r = None)"
proof -
  have e: "original_trades empty_engine = []" "daily_returns empty_engine = []"
    by (simp_all add: empty_engine_def MonteCarloEngine_ctor_def)
  have neg: "reserve limited (- 1) = Inl LengthError"
    by (simp add: reserve_def)
  have big: "reserve limited 1431655765 = Inl BadAlloc"
    by (simp add: reserve_def limited_def)
  have u: "unat (4294967295 :: 32 word) div 3 = 1431655765"
    by simp
  have n: "sint (num_simulations (config_of 4294967295 42) div 3) = 1431655765"
    by (simp only: config_of_def SimulationConfig.simps sint_third u)
  have a: "runAnalysis_mem (\<lambda>k. limited) tape_uid (config_of 4294967295 42) empty_engine =
      Inl BadAlloc"
    by (simp add: runAnalysis_mem_def n reserve_fails_mem [OF big])
  have r1: "reserve limited (sint (num_simulations (config_of 3 42) div 3)) = Inr ()"
    by (simp add: config_of_def reserve_def limited_def)
  have r: "runAnalysis_mem (\<lambda>k. limited) tape_uid (config_of 3 42) empty_engine =
      Inr (aggregate (config_of 3 42) [] [] [], empty_engine)"
    by (rule empty_analysis_mem [OF e r1 r1 r1])
  show ?thesis
    unfolding r a
    by (simp add: reserve_fails_mem [OF neg] reserve_fails_mem [OF big]
        aggregate_explicit config_of_def)
qed

subsection \<open>What the histogram counts\<close>

text \<open>
  The histogram of every report, in the exact arithmetic of the model. When the
  pooled returns are not all equal, the bounds are their minimum and maximum, and
  the twenty buckets count the pooled returns that are strictly below the maximum:
  a return equal to the maximum has the bin index \<open>20\<close> and is not counted. When
  the pooled returns are all equal, the two bounds are equal and every bucket is
  \<open>0\<close>.
\<close>

theorem histogram_counts_below_maximum:
  "\<exists>r e'.
     runAnalysis uid config e = Inr (r, e') \<and>
     (let rets = map total_return_pct (simulations r)
      in (rets \<noteq> [] \<and> Min (set rets) < Max (set rets) \<longrightarrow>
            distribution_min r = Some (Min (set rets)) \<and>
            distribution_max r = Some (Max (set rets)) \<and>
            length (return_distribution r) = 20 \<and>
            sum_list (return_distribution r) =
              int (length (filter (\<lambda>x. x < Max (set rets)) rets))) \<and>
         (rets \<noteq> [] \<and> Min (set rets) = Max (set rets) \<longrightarrow>
            distribution_min r = distribution_max r \<and>
            return_distribution r = replicate 20 0))"
proof -
  from runAnalysis_Inr [of uid config e]
  obtain a b c e3 where r: "runAnalysis uid config e = Inr (aggregate config a b c, e3)"
    by blast
  let ?r = "aggregate config a b c"
  let ?rets = "map total_return_pct (simulations ?r)"
  have s: "?rets = map total_return_pct (a @ b @ c)" by (simp add: aggregate_explicit)
  have h: "return_distribution ?r = histogram_of (sort ?rets)"
    by (simp add: aggregate_explicit)
  have len: "length (histogram_of xs) = 20" for xs
  proof -
    have "length (foldl (histogram_step lo w) hist ys) = length hist" for lo w hist ys
      by (induction ys arbitrary: hist) (simp_all add: histogram_step_length)
    then show ?thesis by (simp add: histogram_of_def)
  qed
  have p1: "sum_list (return_distribution ?r) =
              int (length (filter (\<lambda>x. x < Max (set ?rets)) ?rets))"
    if "?rets \<noteq> []" and "Min (set ?rets) < Max (set ?rets)"
  proof -
    from that have "sort ?rets \<noteq> []" "Min (set (sort ?rets)) < Max (set (sort ?rets))"
      by (simp_all add: sort_Nil_iff)
    from histogram_sum [OF this] show ?thesis
      by (simp only: h set_sort length_filter_sort)
  qed
  have p2: "return_distribution ?r = replicate 20 0" if "Min (set ?rets) = Max (set ?rets)"
    using that by (simp add: h histogram_of_def)
  have m: "distribution_min ?r = Some (Min (set ?rets))"
    "distribution_max ?r = Some (Max (set ?rets))" if "?rets \<noteq> []"
    using that by (simp_all add: aggregate_explicit)
  have "let rets = ?rets
      in (rets \<noteq> [] \<and> Min (set rets) < Max (set rets) \<longrightarrow>
            distribution_min ?r = Some (Min (set rets)) \<and>
            distribution_max ?r = Some (Max (set rets)) \<and>
            length (return_distribution ?r) = 20 \<and>
            sum_list (return_distribution ?r) =
              int (length (filter (\<lambda>x. x < Max (set rets)) rets))) \<and>
         (rets \<noteq> [] \<and> Min (set rets) = Max (set rets) \<longrightarrow>
            distribution_min ?r = distribution_max ?r \<and>
            return_distribution ?r = replicate 20 0)"
    unfolding Let_def using p1 p2 m by (simp add: h len)
  with r show ?thesis by blast
qed

theorem histogram_counts_below_maximum_witness:
  "\<exists>r e'.
     runAnalysis tape_uid (config_of 3 42) example_engine = Inr (r, e') \<and>
     map total_return_pct (simulations r) = [100, 0, 100] \<and>
     distribution_min r = Some 0 \<and> distribution_max r = Some 100 \<and>
     length (return_distribution r) = 20 \<and>
     sum_list (return_distribution r) = 1"
proof -
  from histogram_counts_below_maximum [of tape_uid "config_of 3 42" example_engine]
  obtain r e' where r: "runAnalysis tape_uid (config_of 3 42) example_engine = Inr (r, e')"
    and p: "let rets = map total_return_pct (simulations r)
      in (rets \<noteq> [] \<and> Min (set rets) < Max (set rets) \<longrightarrow>
            distribution_min r = Some (Min (set rets)) \<and>
            distribution_max r = Some (Max (set rets)) \<and>
            length (return_distribution r) = 20 \<and>
            sum_list (return_distribution r) =
              int (length (filter (\<lambda>x. x < Max (set rets)) rets))) \<and>
         (rets \<noteq> [] \<and> Min (set rets) = Max (set rets) \<longrightarrow>
            distribution_min r = distribution_max r \<and>
            return_distribution r = replicate 20 0)"
    by blast
  from r have s: "map total_return_pct (simulations r) = [100, 0, 100]"
    by (auto simp: example_analysis aggregate_explicit)
  from p have "distribution_min r = Some 0 \<and> distribution_max r = Some 100 \<and>
     length (return_distribution r) = 20 \<and> sum_list (return_distribution r) = 1"
    unfolding s Let_def by simp
  with r s show ?thesis
    by (intro exI [of _ r] exI [of _ e']) simp
qed

subsection \<open>The paths of the bootstrap\<close>

text \<open>
  For a non-empty stored Trade list and a random source that keeps the library's
  promise, \<open>runBootstrap\<close> returns the \<open>N\<close> requested paths; each comes from a
  sample that has as many elements as there are trades, every one of them an
  element of the original fractional P&L sequence; its \<open>num_trades\<close> is the
  original trade count, and its \<open>win_rate\<close> is the percentage of positive entries
  of the sample.
\<close>

theorem bootstrap_paths:
  assumes "uid_ok uid" and "original_trades e \<noteq> []" and "0 \<le> n"
  shows "\<exists>results e1.
     runBootstrap uid n e = Inr (results, e1) \<and>
     length results = nat n \<and>
     list_all2
       (\<lambda>sim s.
          length s = length (original_trades e) \<and>
          set s \<subseteq> set (trade_pnls (original_trades e)) \<and>
          num_trades sim = int (length (original_trades e)) \<and>
          win_rate sim = real (length (filter (\<lambda>p. p > 0) s)) / real (length s) * 100)
       results (bootstrap_seqs uid n e)"
proof -
  let ?pnls = "trade_pnls (original_trades e)"
  let ?seqs = "bootstrap_seqs uid n e"
  from assms(2) have ne: "?pnls \<noteq> []" by (simp add: trade_pnls_def)
  have l: "length ?pnls = length (original_trades e)" by (simp add: trade_pnls_def)
  have "\<forall>s\<in>set ?seqs.
          length s = length (original_trades e) \<and>
          set s \<subseteq> set ?pnls \<and>
          num_trades (trade_path_result s) = int (length (original_trades e)) \<and>
          win_rate (trade_path_result s) =
            real (length (filter (\<lambda>p. p > 0) s)) / real (length s) * 100"
  proof
    fix s
    assume "s \<in> set ?seqs"
    with assms(2) have s: "s \<in> set (fst (simulate_n (nat n)
        (\<lambda>g. bootstrap_sample uid (length ?pnls) ?pnls g) (rng e)))"
      by (simp add: bootstrap_seqs_def)
    have a: "length s = length ?pnls"
      by (rule simulate_n_all [OF _ s]) (rule bootstrap_sample_length)
    have b: "set s \<subseteq> set ?pnls"
      by (rule simulate_n_all [OF _ s]) (rule bootstrap_sample_set [OF assms(1) ne])
    from a l assms(2) have "s \<noteq> []" by auto
    with a b l
    show "length s = length (original_trades e) \<and>
          set s \<subseteq> set ?pnls \<and>
          num_trades (trade_path_result s) = int (length (original_trades e)) \<and>
          win_rate (trade_path_result s) =
            real (length (filter (\<lambda>p. p > 0) s)) / real (length s) * 100"
      by (simp add: trade_path_result_num_trades trade_path_result_win_rate)
  qed
  then have "list_all2
       (\<lambda>sim s.
          length s = length (original_trades e) \<and>
          set s \<subseteq> set ?pnls \<and>
          num_trades sim = int (length (original_trades e)) \<and>
          win_rate sim = real (length (filter (\<lambda>p. p > 0) s)) / real (length s) * 100)
       (map trade_path_result ?seqs) ?seqs"
    by (simp only: list_all2_map_same)
  with assms(2,3) show ?thesis
    by (simp add: runBootstrap_nonneg bootstrap_seqs_length)
qed

theorem bootstrap_paths_witness:
  "uid_ok tape_uid \<and> (0::int) \<le> 1 \<and>
   (\<exists>results e1.
      runBootstrap tape_uid 1 seeded_engine = Inr (results, e1) \<and>
      length results = 1 \<and>
      list_all2
        (\<lambda>sim s.
           length s = 2 \<and> set s \<subseteq> {1, 0 :: real} \<and> num_trades sim = 2 \<and>
           win_rate sim = real (length (filter (\<lambda>p. p > 0) s)) / real (length s) * 100)
        results [[1, 1 :: real]])"
proof -
  have ne: "original_trades seeded_engine \<noteq> []" by (simp add: engine_eval)
  have n: "(0::int) \<le> 1" by simp
  have seqs: "bootstrap_seqs tape_uid 1 seeded_engine = [[1, 1]]"
    by (simp add: engine_eval gen_eval mod2)
  have pn: "trade_pnls (original_trades seeded_engine) = [1, 0]"
    by (simp add: engine_eval trade_pnls_def trade_of_pnl_def)
  have l: "length (original_trades seeded_engine) = 2" by (simp add: engine_eval)
  from bootstrap_paths [OF tape_uid_ok ne n]
  show ?thesis
    unfolding seqs pn l by (simp add: tape_uid_ok)
qed

subsection \<open>The maximal drawdown\<close>

text \<open>
  \<open>calculateMaxDrawdown\<close> is \<open>0\<close> for an equity curve that never declines and for
  the empty curve, and it is \<open>25\<close> (per cent) for the curve
  \<open>[100000, 120000, 90000, 110000]\<close>, whose peak is \<open>120000\<close> and whose trough is
  \<open>90000\<close>.
\<close>

theorem max_drawdown_spec:
  "(sorted curve \<longrightarrow> calculateMaxDrawdown curve = 0) \<and>
   calculateMaxDrawdown [] = 0 \<and>
   calculateMaxDrawdown [100000, 120000, 90000, 110000] = 25"
proof (intro conjI impI)
  assume s: "sorted curve"
  show "calculateMaxDrawdown curve = 0"
  proof (cases curve)
    case Nil
    then show ?thesis by (simp add: calculateMaxDrawdown_def)
  next
    case (Cons v vs)
    from s Cons have "sorted (v # v # vs)" by simp
    from drawdown_sorted [OF this] Cons show ?thesis
      by (simp add: calculateMaxDrawdown_def)
  qed
next
  show "calculateMaxDrawdown [] = 0" by (simp add: calculateMaxDrawdown_def)
next
  show "calculateMaxDrawdown [100000, 120000, 90000, 110000] = 25"
    by (simp add: calculateMaxDrawdown_def drawdown_step_def)
qed

theorem max_drawdown_spec_witness:
  "sorted [100000, 100000, 120000 :: real] \<and>
   calculateMaxDrawdown [100000, 100000, 120000] = 0"
  using max_drawdown_spec [of "[100000, 100000, 120000]"] by simp

end
